theory Spec2Isabelle
  imports Main "HOL-Library.Sublist"
begin

section \<open>Python strings and the helpers of \<open>re\<close> and \<open>str\<close> that Resume.py calls\<close>

text \<open>
  A Python \<open>str\<close> is modelled as \<^typ>\<open>string\<close>. The backslash and the newline cannot be
  written inside a HOL string literal, so they get names.
\<close>

abbreviation BS :: char where "BS \<equiv> CHR 0x5C"
abbreviation NL :: char where "NL \<equiv> CHR 0x0A"

text \<open>
  \<open>re.compile('|'.join(re.escape(k) for k in keys)).sub(lambda m: conv[m.group()], text)\<close>:
  the pattern is an alternation of literal keys. At every position the first alternative
  (in the order of the pattern) that is a prefix of the remaining text matches; the match is
  replaced by the dictionary value of the matched key and scanning resumes behind the match.
  Where no alternative matches, the character is copied. Each alternative carries its
  dictionary value, since \<open>m.group()\<close> is the alternative that matched. The keys of
  \<open>conv\<close> are never empty; an empty key is ignored here.
\<close>

fun first_match :: "(string \<times> string) list \<Rightarrow> string \<Rightarrow> (string \<times> string) option" where
  "first_match [] s = None"
| "first_match ((k, v) # alts) s =
     (if k \<noteq> [] \<and> prefix k s then Some (k, v) else first_match alts s)"

fun re_sub :: "(string \<times> string) list \<Rightarrow> string \<Rightarrow> string" where
  "re_sub alts [] = []"
| "re_sub alts (c # cs) =
     (case first_match alts (c # cs) of
        Some (k, v) \<Rightarrow> v @ re_sub alts (drop (length k - 1) cs)
      | None \<Rightarrow> c # re_sub alts cs)"

text \<open>
  \<open>s.replace(old, new)\<close> for a non-empty \<open>old\<close>: the non-overlapping occurrences of
  \<open>old\<close>, found from the left, are replaced.
\<close>

fun str_replace :: "string \<Rightarrow> string \<Rightarrow> string \<Rightarrow> string" where
  "str_replace old new [] = []"
| "str_replace old new (c # cs) =
     (if old \<noteq> [] \<and> prefix old (c # cs)
      then new @ str_replace old new (drop (length old - 1) cs)
      else c # str_replace old new cs)"

section \<open>Text Sanitizer: \<open>sanitize_for_latex\<close>\<close>

text \<open>The dictionary \<open>conv\<close> of \<open>sanitize_for_latex\<close>, in insertion order.\<close>

definition conv :: "(string \<times> string) list" where
  "conv =
    [(''&'', BS # ''&''), (''%'', BS # ''%''), (''$'', BS # ''$''), (''#'', BS # ''#''),
     (''_'', BS # ''_''), (''{'', BS # ''{''), (''}'', BS # ''}''),
     (''~'', BS # ''textasciitilde{}''), (''^'', BS # ''textasciicircum{}''),
     ([BS], BS # ''textbackslash{}'')]"

text \<open>
  \<open>sorted(conv.keys(), key=len, reverse=True)\<close>: a stable sort by decreasing length.
\<close>

definition sorted_keys :: "(string \<times> string) list \<Rightarrow> (string \<times> string) list" where
  "sorted_keys d = sort_key (\<lambda>(k, v). - int (length k)) d"

definition sanitize_for_latex :: "string \<Rightarrow> string" where
  "sanitize_for_latex text = (if text = [] then [] else re_sub (sorted_keys conv) text)"

subsection \<open>What the sanitizer's output must look like\<close>

text \<open>
  The escape of one character: its entry in \<open>conv\<close>, or the character itself.
\<close>

definition escape_char :: "char \<Rightarrow> string" where
  "escape_char c = (case map_of conv [c] of Some v \<Rightarrow> v | None \<Rightarrow> [c])"

definition reserved :: "char \<Rightarrow> bool" where
  "reserved c = ([c] \<in> set (map fst conv))"



section \<open>The resume data record\<close>

text \<open>
  The profile is a JSON-shaped \<open>dict\<close>. Every key may be missing, so every field is an
  option: \<open>None\<close> is the missing key. Keys that no function of the pipeline reads are
  left out.
\<close>

record contact_info =
  full_name :: "string option"
  email :: "string option"
  phone :: "string option"
  linkedin :: "string option"
  photo_path :: "string option"

record experience_entry =
  title :: "string option"
  company :: "string option"
  location :: "string option"
  dates :: "string option"
  accomplishments :: "string list option"

record education_entry =
  institution :: "string option"
  degree :: "string option"
  edu_location :: "string option"
  edu_dates :: "string option"

record skill_set =
  technical :: "string list option"
  professional :: "string list option"

record resume =
  contact :: "contact_info option"
  summary :: "string option"
  experience :: "experience_entry list option"
  education :: "education_entry list option"
  skills :: "skill_set option"
  languages :: "string list option"

text \<open>\<open>d.get(key, default)\<close>, and the truth value of \<open>d.get(key)\<close> for a string or a list.\<close>

definition dict_get :: "'a option \<Rightarrow> 'a \<Rightarrow> 'a" where
  "dict_get v dflt = (case v of None \<Rightarrow> dflt | Some x \<Rightarrow> x)"

definition truthy :: "'a list option \<Rightarrow> bool" where
  "truthy v = (case v of None \<Rightarrow> False | Some xs \<Rightarrow> xs \<noteq> [])"

section \<open>Section Builders\<close>

subsection \<open>\<open>build_summary_section\<close>\<close>

definition build_summary_section :: "resume \<Rightarrow> string" where
  "build_summary_section data =
     (if \<not> truthy (summary data) then []
      else [BS] @ ''section*{Summary}'' @ [NL] @
           sanitize_for_latex (dict_get (summary data) []) @ [BS] @ ''vspace{10pt}'' @ [NL])"

subsection \<open>\<open>build_experience_section\<close>\<close>

text \<open>The literal the accumulator \<open>experience_str\<close> starts with, and the one that closes it.\<close>

definition experience_header :: string where
  "experience_header =
     [BS] @ ''section*{Professional Experience}'' @ [NL] @ [BS] @
     ''begin{itemize}[leftmargin=0.15in, label={}]'' @ [NL]"

definition experience_footer :: string where
  "experience_footer = [BS] @ ''end{itemize}'' @ [NL] @ [NL]"

text \<open>The f-string of one entry, with its four interpolated locals.\<close>

definition entry_markup :: "string \<Rightarrow> string \<Rightarrow> string \<Rightarrow> string \<Rightarrow> string" where
  "entry_markup title' dates' company' location' =
     ''  '' @ [BS] @ ''item'' @ [NL] @ ''    '' @ [BS] @ ''begin{tabular*}{'' @ [BS] @
     ''textwidth}{'' @ [CHR 0x40] @ ''{'' @ [BS] @ ''extracolsep{'' @ [BS] @ ''fill}}l r}'' @ [NL] @ ''      '' @
     [BS] @ ''textbf{'' @ [BS] @ ''large '' @ title' @ ''} & {'' @ [BS] @ ''small '' @ dates' @
     ''} '' @ [BS] @ [BS] @ [NL] @ ''      '' @ [BS] @ ''textit{'' @ [BS] @ ''small '' @
     company' @ ''} & '' @ [BS] @ ''textit{'' @ [BS] @ ''small '' @ location' @ ''} '' @ [BS] @
     [BS] @ [NL] @ ''    '' @ [BS] @ ''end{tabular*}'' @ [BS] @ ''vspace{-2pt}'' @ [NL]"

definition accomplishments_header :: string where
  "accomplishments_header =
     ''    '' @ [BS] @ ''begin{itemize}[leftmargin=0.2in, topsep=0pt, itemsep=-2pt]'' @ [NL]"

definition accomplishments_footer :: string where
  "accomplishments_footer = ''    '' @ [BS] @ ''end{itemize}'' @ [NL]"

definition accomplishment_markup :: "string \<Rightarrow> string" where
  "accomplishment_markup sanitized_acc =
     ''      '' @ [BS] @ ''item '' @ [BS] @ ''small{'' @ sanitized_acc @ ''}'' @ [NL]"

text \<open>
  The two rewrites the builder applies to sanitized text: every \<open>\textbackslash{}\<close> of the
  sanitized title becomes a slash, and every \<open>\textbackslash{}\%\<close> of a sanitized
  accomplishment becomes \<open>\%\<close>.
\<close>

definition title_rewrite :: "string \<Rightarrow> string" where
  "title_rewrite t = str_replace ([BS] @ ''textbackslash{}'') ''/'' t"

definition accomplishment_rewrite :: "string \<Rightarrow> string" where
  "accomplishment_rewrite a =
     str_replace ([BS] @ ''textbackslash{}'' @ [BS] @ ''%'') ([BS] @ ''%'') a"

text \<open>
  The body of the inner loop: the accomplishment is sanitized and rewritten, and its line
  is appended to the accumulator.
\<close>

definition accomplishment_step :: "string \<Rightarrow> string \<Rightarrow> string" where
  "accomplishment_step acc experience_str =
     (let sanitized_acc = accomplishment_rewrite (sanitize_for_latex acc)
      in experience_str @ accomplishment_markup sanitized_acc)"

text \<open>
  The body of the outer loop: the four fields are sanitized, the title is rewritten, the
  entry is appended, and the inner loop runs when the entry has accomplishments.
\<close>

definition entry_step :: "experience_entry \<Rightarrow> string \<Rightarrow> string" where
  "entry_step entry experience_str =
     (let title' = sanitize_for_latex (dict_get (title entry) []);
          dates' = sanitize_for_latex (dict_get (dates entry) []);
          company' = sanitize_for_latex (dict_get (company entry) []);
          location' = sanitize_for_latex (dict_get (location entry) []);
          title' = title_rewrite title';
          experience_str = experience_str @ entry_markup title' dates' company' location'
      in if truthy (accomplishments entry)
         then fold accomplishment_step (dict_get (accomplishments entry) [])
                (experience_str @ accomplishments_header) @ accomplishments_footer
         else experience_str)"

definition build_experience_section :: "resume \<Rightarrow> string" where
  "build_experience_section data =
     (if \<not> truthy (experience data) then []
      else fold entry_step (dict_get (experience data) []) experience_header @
           experience_footer)"

text \<open>
  The block one entry contributes: what the outer loop's body appends to an empty
  accumulator.
\<close>

definition experience_block :: "experience_entry \<Rightarrow> string" where
  "experience_block entry = entry_step entry []"

subsection \<open>\<open>build_education_section\<close>\<close>

definition education_header :: string where
  "education_header =
     [BS] @ ''section*{Education}'' @ [NL] @ [BS] @
     ''begin{itemize}[leftmargin=0.15in, label={}]'' @ [NL]"

definition education_markup :: "string \<Rightarrow> string \<Rightarrow> string \<Rightarrow> string \<Rightarrow> string" where
  "education_markup institution' dates' degree' location' =
     ''  '' @ [BS] @ ''item'' @ [NL] @ ''    '' @ [BS] @ ''begin{tabular*}{'' @ [BS] @
     ''textwidth}{'' @ [CHR 0x40] @ ''{'' @ [BS] @ ''extracolsep{'' @ [BS] @ ''fill}}l r}'' @ [NL] @ ''      '' @
     [BS] @ ''textbf{'' @ [BS] @ ''large '' @ institution' @ ''} & {'' @ [BS] @ ''small '' @
     dates' @ ''} '' @ [BS] @ [BS] @ [NL] @ ''      '' @ [BS] @ ''textit{'' @ [BS] @
     ''small '' @ degree' @ ''} & '' @ [BS] @ ''textit{'' @ [BS] @ ''small '' @ location' @
     ''} '' @ [BS] @ [BS] @ [NL] @ ''    '' @ [BS] @ ''end{tabular*}'' @ [BS] @
     ''vspace{-2pt}'' @ [NL]"

definition education_step :: "education_entry \<Rightarrow> string \<Rightarrow> string" where
  "education_step entry education_str =
     (let institution' = sanitize_for_latex (dict_get (institution entry) []);
          dates' = sanitize_for_latex (dict_get (edu_dates entry) []);
          degree' = sanitize_for_latex (dict_get (degree entry) []);
          location' = sanitize_for_latex (dict_get (edu_location entry) [])
      in education_str @ education_markup institution' dates' degree' location')"

definition build_education_section :: "resume \<Rightarrow> string" where
  "build_education_section data =
     (if \<not> truthy (education data) then []
      else fold education_step (dict_get (education data) []) education_header @
           [BS] @ ''end{itemize}'' @ [NL] @ [NL])"

subsection \<open>\<open>build_skills_section\<close>\<close>

text \<open>\<open>clean_skill\<close> rewrites the raw skill first and sanitizes the result.\<close>

definition clean_skill :: "string \<Rightarrow> string" where
  "clean_skill skill =
     sanitize_for_latex
       (str_replace ([BS] @ ''textbackslash{}'' @ [BS] @ ''&'') '' & '' skill)"

definition minipage_open :: "string \<Rightarrow> string \<Rightarrow> string" where
  "minipage_open col_width heading =
     [BS] @ ''begin{minipage}[t]{'' @ col_width @ [BS] @ ''textwidth}'' @ [NL] @
     ''    '' @ [BS] @
     ''begin{itemize}[leftmargin=0.15in, label={}, noitemsep, topsep=0pt]'' @ [NL] @
     ''        '' @ [BS] @ ''item '' @ [BS] @ ''textbf{'' @ heading @ ''}'' @ [NL] @
     ''        '' @ [BS] @ ''begin{itemize}[leftmargin=0.2in, topsep=2pt, itemsep=-2pt]'' @
     [NL]"

definition minipage_close :: string where
  "minipage_close =
     ''        '' @ [BS] @ ''end{itemize}'' @ [NL] @ ''    '' @ [BS] @ ''end{itemize}'' @
     [NL] @ [BS] @ ''end{minipage}''"

definition skill_step :: "string \<Rightarrow> string \<Rightarrow> string" where
  "skill_step skill skills_str =
     skills_str @ ''            '' @ [BS] @ ''item '' @ clean_skill skill @ [NL]"

definition build_skills_section :: "resume \<Rightarrow> string" where
  "build_skills_section data =
     (case skills data of
        None \<Rightarrow> []
      | Some sk \<Rightarrow>
          if \<not> truthy (technical sk) \<and> \<not> truthy (professional sk) then []
          else
            let skills_str = [BS] @ ''section*{Skills}'' @ [NL] @ [BS] @ ''noindent'' @ [NL];
                tech_skills = dict_get (technical sk) [];
                prof_skills = dict_get (professional sk) [];
                tech_col_width =
                  (if tech_skills \<noteq> [] \<and> prof_skills \<noteq> [] then ''0.5'' else ''1.0'');
                prof_col_width =
                  (if tech_skills \<noteq> [] \<and> prof_skills \<noteq> [] then ''0.5'' else ''1.0'');
                skills_str =
                  (if tech_skills \<noteq> [] then
                     fold skill_step tech_skills
                       (skills_str @ minipage_open tech_col_width ''Technical Skills'') @
                     minipage_close @ (if prof_skills \<noteq> [] then ''%'' @ [NL] else [])
                   else skills_str);
                skills_str =
                  (if prof_skills \<noteq> [] then
                     fold skill_step prof_skills
                       (skills_str @ minipage_open prof_col_width ''Professional Skills'') @
                     minipage_close @ [NL] @ [NL]
                   else skills_str)
            in skills_str)"

subsection \<open>\<open>build_languages_section\<close>\<close>

definition language_step :: "string \<Rightarrow> string \<Rightarrow> string" where
  "language_step lang lang_str =
     lang_str @ ''    '' @ [BS] @ ''item '' @ sanitize_for_latex lang @ [NL]"

definition build_languages_section :: "resume \<Rightarrow> string" where
  "build_languages_section data =
     (if \<not> truthy (languages data) then []
      else fold language_step (dict_get (languages data) [])
             ([BS] @ ''section*{Languages}'' @ [NL] @ [BS] @
              ''begin{itemize}[leftmargin=0.15in, topsep=0pt]'' @ [NL]) @
           [BS] @ ''end{itemize}'' @ [NL])"

section \<open>AI Edit Applier: \<open>apply_ai_edits\<close>\<close>

text \<open>
  The exceptions the code can raise. \<open>d[key]\<close> on a missing key raises \<open>KeyError\<close>,
  \<open>xs[i]\<close> out of range raises \<open>IndexError\<close>, \<open>xs.index(x)\<close> without \<open>x\<close> raises
  \<open>ValueError\<close>, and \<open>CONSOLE.print\<close> raises \<open>MarkupError\<close> on console markup that
  rich cannot read.
\<close>

datatype py_error = KeyError string | IndexError | ValueError | MarkupError

text \<open>A suggested edit, as parsed from the assistant's JSON: any key may be missing.\<close>

record suggested_edit =
  "section" :: "string option"
  entry_index :: "int option"
  field :: "string option"
  original_text :: "string option"
  suggested_text :: "string option"

subsection \<open>The console\<close>

text \<open>
  \<open>CONSOLE\<close> is a rich \<open>Console\<close>. It reads the text of every message as console
  markup: a piece in square brackets that starts with a lower-case letter, \<open>#\<close>, \<open>/\<close> or
  \<open>@\<close> is a tag, and a closing tag that closes no open tag, such as \<open>[/b]\<close> after
  \<open>[yellow]\<close>, raises \<open>MarkupError\<close>. The messages of \<open>Resume.py\<close> are f-strings with
  tags of their own around interpolated text, so whether a message renders depends on the
  text it interpolates. There is one constructor per message that the modelled functions
  print, carrying what the message interpolates.
\<close>

datatype message =
    CompilationSkipped
  | TexWriteError string
  | Compiling string
  | Created string
  | CompilationError string
  | CompilerOutput string
  | TemplateNotFound string
  | DataMismatch suggested_edit

text \<open>
  What rich decides for a message with interpolated text is not worked out here: it is a
  parameter, the set of messages that render. The message without interpolated text holds
  only the tags written in the code and always renders. The messages that report an
  applied edit interpolate at most a number; they render and are left out. The terminal is
  taken to accept the characters of every message.
\<close>

type_synonym rich_console = "message \<Rightarrow> bool"

definition renders :: "rich_console \<Rightarrow> message \<Rightarrow> bool" where
  "renders rich m = (case m of CompilationSkipped \<Rightarrow> True | _ \<Rightarrow> rich m)"

subsection \<open>The edits\<close>

definition subscript :: "string \<Rightarrow> 'a option \<Rightarrow> py_error + 'a" where
  "subscript key v = (case v of None \<Rightarrow> Inl (KeyError key) | Some x \<Rightarrow> Inr x)"

text \<open>
  The position \<open>xs[i]\<close> reads: a negative index counts from the end, and an index
  outside \<open>-len(xs) .. len(xs) - 1\<close> raises.
\<close>

definition list_position :: "'a list \<Rightarrow> int \<Rightarrow> py_error + nat" where
  "list_position xs i =
     (let n = int (length xs); j = (if i < 0 then i + n else i)
      in if 0 \<le> j \<and> j < n then Inr (nat j) else Inl IndexError)"

text \<open>\<open>xs.index(x)\<close>: the position of the first element equal to \<open>x\<close>.\<close>

fun list_index :: "'a list \<Rightarrow> 'a \<Rightarrow> py_error + nat" where
  "list_index [] x = Inl ValueError"
| "list_index (y # ys) x =
     (if y = x then Inr 0
      else (case list_index ys x of Inl e \<Rightarrow> Inl e | Inr k \<Rightarrow> Inr (Suc k)))"

text \<open>The branch \<open>section == 'summary'\<close> of the \<open>try\<close> block.\<close>

definition edit_summary :: "resume \<Rightarrow> suggested_edit \<Rightarrow> py_error + resume" where
  "edit_summary editable_resume edit =
     (case subscript ''original_text'' (original_text edit) of
        Inl e \<Rightarrow> Inl e
      | Inr orig \<Rightarrow>
          if dict_get (summary editable_resume) [] = orig then
            (case subscript ''suggested_text'' (suggested_text edit) of
               Inl e \<Rightarrow> Inl e
             | Inr sugg \<Rightarrow> Inr (editable_resume\<lparr>summary := Some sugg\<rparr>))
          else Inr editable_resume)"

text \<open>
  The assignment \<open>accomplishments[accomplishments.index(original)] = suggested\<close>: Python
  evaluates the right-hand side first, then the index, then stores. The list belongs to
  the entry at position \<open>j\<close>, so the store shows in the profile.
\<close>

definition replace_accomplishment ::
  "resume \<Rightarrow> suggested_edit \<Rightarrow> experience_entry list \<Rightarrow> nat \<Rightarrow> string list \<Rightarrow> string
     \<Rightarrow> py_error + resume" where
  "replace_accomplishment editable_resume edit exps j accs orig =
     (case subscript ''suggested_text'' (suggested_text edit) of
        Inl e \<Rightarrow> Inl e
      | Inr sugg \<Rightarrow>
          (case list_index accs orig of
             Inl e \<Rightarrow> Inl e
           | Inr k \<Rightarrow>
               Inr (editable_resume
                      \<lparr>experience :=
                         Some (exps[j := (exps ! j)
                                 \<lparr>accomplishments := Some (accs[k := sugg])\<rparr>])\<rparr>)))"

text \<open>The branch \<open>section == 'experience'\<close>, its subscripts in evaluation order.\<close>

definition edit_experience :: "resume \<Rightarrow> suggested_edit \<Rightarrow> py_error + resume" where
  "edit_experience editable_resume edit =
     (case subscript ''experience'' (experience editable_resume) of
        Inl e \<Rightarrow> Inl e
      | Inr exps \<Rightarrow>
          (case subscript ''entry_index'' (entry_index edit) of
             Inl e \<Rightarrow> Inl e
           | Inr i \<Rightarrow>
               (case list_position exps i of
                  Inl e \<Rightarrow> Inl e
                | Inr j \<Rightarrow>
                    (case subscript ''accomplishments'' (accomplishments (exps ! j)) of
                       Inl e \<Rightarrow> Inl e
                     | Inr accs \<Rightarrow>
                         (case subscript ''original_text'' (original_text edit) of
                            Inl e \<Rightarrow> Inl e
                          | Inr orig \<Rightarrow>
                              if orig \<in> set accs
                              then replace_accomplishment editable_resume edit exps j accs orig
                              else Inr editable_resume)))))"

text \<open>The body of the \<open>try\<close> block for one edit.\<close>

definition try_edit :: "resume \<Rightarrow> suggested_edit \<Rightarrow> py_error + resume" where
  "try_edit editable_resume edit =
     (case subscript ''section'' (section edit) of
        Inl e \<Rightarrow> Inl e
      | Inr sec \<Rightarrow>
          if sec = ''summary'' then edit_summary editable_resume edit
          else if sec = ''experience'' then edit_experience editable_resume edit
          else Inr editable_resume)"

text \<open>The exceptions that \<open>except (KeyError, IndexError)\<close> catches.\<close>

definition caught :: "py_error \<Rightarrow> bool" where
  "caught err = (case err of KeyError k \<Rightarrow> True | IndexError \<Rightarrow> True | _ \<Rightarrow> False)"

text \<open>
  The loop over the edits. The \<open>except\<close> clause prints a message that interpolates the
  edit and then continues with the profile as it was. The \<open>print\<close> stands in the handler,
  outside the \<open>try\<close> block: when the message does not render, \<open>MarkupError\<close> leaves the
  function. So does an exception of the \<open>try\<close> block that the clause does not catch.
\<close>

fun edits_loop :: "rich_console \<Rightarrow> resume \<Rightarrow> suggested_edit list \<Rightarrow> py_error + resume" where
  "edits_loop rich editable_resume [] = Inr editable_resume"
| "edits_loop rich editable_resume (edit # edits) =
     (case try_edit editable_resume edit of
        Inr r \<Rightarrow> edits_loop rich r edits
      | Inl err \<Rightarrow>
          if \<not> caught err then Inl err
          else if renders rich (DataMismatch edit) then edits_loop rich editable_resume edits
          else Inl MarkupError)"

text \<open>
  On values, \<open>copy.deepcopy\<close> is the identity: the copy has the content of the input.
  That the copy is made of new objects is the subject of the store of objects further on.
\<close>

definition apply_ai_edits ::
  "rich_console \<Rightarrow> resume \<Rightarrow> suggested_edit list \<Rightarrow> py_error + resume" where
  "apply_ai_edits rich resume_data edits = edits_loop rich resume_data edits"

subsection \<open>When an edit matches\<close>

text \<open>
  An edit matches a profile when the comparison the code makes for it succeeds: for a
  summary edit, the summary (the empty string when the key is missing) equals
  \<open>original_text\<close>; for an experience edit, \<open>original_text\<close> is one of the
  accomplishments of the entry that \<open>entry_index\<close> selects.
\<close>

definition edit_matches :: "resume \<Rightarrow> suggested_edit \<Rightarrow> bool" where
  "edit_matches p edit =
     (case original_text edit of
        None \<Rightarrow> False
      | Some orig \<Rightarrow>
          (section edit = Some ''summary'' \<and> dict_get (summary p) [] = orig) \<or>
          (section edit = Some ''experience'' \<and>
           (case entry_index edit of
              None \<Rightarrow> False
            | Some i \<Rightarrow>
                (case list_position (dict_get (experience p) []) i of
                   Inl e \<Rightarrow> False
                 | Inr j \<Rightarrow>
                     orig \<in> set (dict_get
                       (accomplishments (dict_get (experience p) [] ! j)) [])))))"

section \<open>Document Compiler: \<open>compile_latex_to_pdf\<close>\<close>

text \<open>
  The part of the outside world the pipeline touches: the files, as a map from path to
  content, and the console.
\<close>

record world =
  files :: "string \<rightharpoonup> string"
  console :: "message list"

text \<open>
  What the functions cannot decide themselves: whether \<open>shutil.which\<close> finds the
  typesetting tool, what one run of the tool does to the files and which exit code and
  error output it gives, whether a file can be opened for writing, whether
  \<open>os.remove\<close> succeeds, and which messages the console renders.
\<close>

record environment =
  pdflatex_found :: bool
  pdflatex :: "string \<Rightarrow> (string \<rightharpoonup> string) \<Rightarrow> int \<times> string \<times> (string \<rightharpoonup> string)"
  writable :: "string \<Rightarrow> bool"
  removable :: "string \<Rightarrow> bool"
  rich_markup :: rich_console

text \<open>
  \<open>CONSOLE.print\<close>: a message that renders appears on the console; one that does not
  raises \<open>MarkupError\<close> and nothing is printed.
\<close>

definition rich_print :: "rich_console \<Rightarrow> message \<Rightarrow> world \<Rightarrow> py_error + world" where
  "rich_print c m w =
     (if renders c m then Inr (w\<lparr>console := console w @ [m]\<rparr>) else Inl MarkupError)"

text \<open>\<open>os.path.join\<close> for two parts, POSIX.\<close>

definition os_path_join :: "string \<Rightarrow> string \<Rightarrow> string" where
  "os_path_join a b =
     (if b \<noteq> [] \<and> hd b = CHR ''/'' then b
      else if a = [] \<or> last a = CHR ''/'' then a @ b
      else a @ ''/'' @ b)"

definition os_path_exists :: "world \<Rightarrow> string \<Rightarrow> bool" where
  "os_path_exists w path = (files w path \<noteq> None)"

text \<open>
  The body of the loop in the \<open>finally\<close> clause: an existing file is removed, and an
  \<open>OSError\<close> of \<open>os.remove\<close> is ignored.
\<close>

definition remove_if_exists :: "environment \<Rightarrow> string \<Rightarrow> world \<Rightarrow> world" where
  "remove_if_exists env aux_file w =
     (if os_path_exists w aux_file \<and> removable env aux_file
      then w\<lparr>files := (files w)(aux_file := None)\<rparr>
      else w)"

text \<open>The \<open>finally\<close> clause: it runs on the success path and on the failure path.\<close>

definition cleanup :: "environment \<Rightarrow> string \<Rightarrow> world \<Rightarrow> world" where
  "cleanup env filename_base w =
     fold (\<lambda>ext. remove_if_exists env (os_path_join ''output'' (filename_base @ ext)))
       [''.aux'', ''.log''] w"

text \<open>
  \<open>subprocess.run(cmd_args, check=True, capture_output=True, text=True)\<close>: a non-zero
  exit code raises \<open>CalledProcessError\<close>, which carries the captured error output.
\<close>

definition run_pdflatex :: "environment \<Rightarrow> string \<Rightarrow> world \<Rightarrow> (string + unit) \<times> world" where
  "run_pdflatex env tex_filepath w =
     (case pdflatex env tex_filepath (files w) of
        (returncode, stderr, fs) \<Rightarrow>
          (if returncode \<noteq> 0 then Inl stderr else Inr (), w\<lparr>files := fs\<rparr>))"

text \<open>
  A \<open>print\<close> followed by \<open>return value\<close>: the value is returned when the message
  renders, and otherwise \<open>MarkupError\<close> is raised.
\<close>

definition print_and_return ::
  "rich_console \<Rightarrow> message \<Rightarrow> 'a \<Rightarrow> world \<Rightarrow> (py_error + 'a) \<times> world" where
  "print_and_return c m v w =
     (case rich_print c m w of Inl e \<Rightarrow> (Inl e, w) | Inr w' \<Rightarrow> (Inr v, w'))"

text \<open>
  The \<open>except subprocess.CalledProcessError\<close> clause: the message that names the log
  file, then, when the tool wrote error output, a panel with that output. The panel reads
  the output as console markup, like every message.
\<close>

definition compile_failed ::
  "environment \<Rightarrow> string \<Rightarrow> string \<Rightarrow> world \<Rightarrow> (py_error + string option) \<times> world" where
  "compile_failed env filename_base stderr w =
     (let log_path = os_path_join ''output'' (filename_base @ ''.log'')
      in case rich_print (rich_markup env) (CompilationError log_path) w of
           Inl e \<Rightarrow> (Inl e, w)
         | Inr w1 \<Rightarrow>
             if stderr \<noteq> [] then print_and_return (rich_markup env) (CompilerOutput stderr) None w1
             else (Inr None, w1))"

text \<open>The \<open>try\<close> block: two runs of the tool, then the success message.\<close>

definition compile_try ::
  "environment \<Rightarrow> string \<Rightarrow> string \<Rightarrow> world \<Rightarrow> (py_error + string option) \<times> world" where
  "compile_try env filename_base tex_filepath w =
     (case run_pdflatex env tex_filepath w of
        (Inl stderr, w1) \<Rightarrow> compile_failed env filename_base stderr w1
      | (Inr u, w1) \<Rightarrow>
          (case run_pdflatex env tex_filepath w1 of
             (Inl stderr, w2) \<Rightarrow> compile_failed env filename_base stderr w2
           | (Inr u, w2) \<Rightarrow>
               (let pdf_path = os_path_join ''output'' (filename_base @ ''.pdf'')
                in print_and_return (rich_markup env) (Created pdf_path)
                     (Some (filename_base @ ''.pdf'')) w2)))"

text \<open>
  The function. The text of the status line of \<open>CONSOLE.status\<close> is read when the status
  is created, before the \<open>try\<close> statement is entered, so a status text that does not
  render raises past the \<open>finally\<close> clause; the status line itself is transient and
  leaves nothing on the console. Every way out of the \<open>try\<close> statement, an exception of
  a \<open>print\<close> included, runs the \<open>finally\<close> clause.
\<close>

definition compile_latex_to_pdf ::
  "environment \<Rightarrow> world \<Rightarrow> string \<Rightarrow> string \<Rightarrow> (py_error + string option) \<times> world" where
  "compile_latex_to_pdf env w latex_code filename_base =
     (if \<not> pdflatex_found env then print_and_return (rich_markup env) CompilationSkipped None w
      else
        let tex_filepath = os_path_join ''output'' (filename_base @ ''.tex'')
        in if \<not> writable env tex_filepath
           then print_and_return (rich_markup env) (TexWriteError tex_filepath) None w
           else
             let w1 = w\<lparr>files := (files w)(tex_filepath \<mapsto> latex_code)\<rparr>
             in if \<not> renders (rich_markup env) (Compiling filename_base) then (Inl MarkupError, w1)
                else (case compile_try env filename_base tex_filepath w1 of
                        (result, w') \<Rightarrow> (result, cleanup env filename_base w')))"

section \<open>Template Renderer: \<open>generate_resume_latex\<close>\<close>

text \<open>
  The outcome of a call that may raise. \<open>Unmodelled\<close> marks input on which this
  development does not say what Python does (conversions, format specifications, attribute
  and index access, and positional fields of \<open>str.format\<close>; a copy of a file onto
  itself).
\<close>

datatype 'a outcome = Returns 'a | Raises py_error | Unmodelled

definition emit :: "string \<Rightarrow> string outcome \<Rightarrow> string outcome" where
  "emit s r = (case r of Returns t \<Rightarrow> Returns (s @ t) | Raises e \<Rightarrow> Raises e | Unmodelled \<Rightarrow> Unmodelled)"

text \<open>
  \<open>template.format(**kwargs)\<close>. Text is copied; \<open>{{\<close> and \<open>}}\<close> stand for one brace;
  a single \<open>}\<close> and an unclosed \<open>{\<close> raise \<open>ValueError\<close>. A field runs from \<open>{\<close>
  to the next \<open>}\<close>; its name is looked up in the keyword arguments and a name that is
  not a key raises \<open>KeyError\<close>. An empty name is the positional field 0, and no
  positional argument is passed: \<open>IndexError\<close>. The first failure from the left is the
  one raised.
\<close>

definition field_stop :: "char \<Rightarrow> bool" where
  "field_stop c = (c \<in> set ''{}[:!'')"

definition is_digit :: "char \<Rightarrow> bool" where
  "is_digit c = (c \<in> set ''0123456789'')"

definition lookup_field :: "(string \<rightharpoonup> string) \<Rightarrow> string \<Rightarrow> string outcome" where
  "lookup_field kwargs field_name =
     (if field_name = [] then Raises IndexError
      else if CHR ''.'' \<in> set field_name \<or> list_all is_digit field_name then Unmodelled
      else (case kwargs field_name of
              None \<Rightarrow> Raises (KeyError field_name)
            | Some v \<Rightarrow> Returns v))"

fun str_format :: "(string \<rightharpoonup> string) \<Rightarrow> string \<Rightarrow> string outcome" where
  "str_format kwargs [] = Returns []"
| "str_format kwargs (c # cs) =
     (if c = CHR ''{'' then
        (case cs of
           [] \<Rightarrow> Raises ValueError
         | d # ds \<Rightarrow>
             if d = CHR ''{'' then emit ''{'' (str_format kwargs ds)
             else
               (let field_name = takeWhile (\<lambda>x. \<not> field_stop x) cs
                in case dropWhile (\<lambda>x. \<not> field_stop x) cs of
                     [] \<Rightarrow> Raises ValueError
                   | s # after \<Rightarrow>
                       if s = CHR ''{'' then Raises ValueError
                       else if s \<noteq> CHR ''}'' then Unmodelled
                       else
                         (case lookup_field kwargs field_name of
                            Returns v \<Rightarrow>
                              emit v (str_format kwargs (drop (Suc (length field_name)) cs))
                          | Raises e \<Rightarrow> Raises e
                          | Unmodelled \<Rightarrow> Unmodelled)))
      else if c = CHR ''}'' then
        (case cs of
           [] \<Rightarrow> Raises ValueError
         | d # ds \<Rightarrow>
             if d = CHR ''}'' then emit ''}'' (str_format kwargs ds) else Raises ValueError)
      else emit [c] (str_format kwargs cs))"

text \<open>\<open>str.lower\<close> on the ASCII letters.\<close>

definition py_lower :: "char \<Rightarrow> char" where
  "py_lower c =
     (case map_of (zip ''ABCDEFGHIJKLMNOPQRSTUVWXYZ'' ''abcdefghijklmnopqrstuvwxyz'') c of
        None \<Rightarrow> c
      | Some l \<Rightarrow> l)"

definition os_path_basename :: "string \<Rightarrow> string" where
  "os_path_basename p = rev (takeWhile (\<lambda>c. c \<noteq> CHR ''/'') (rev p))"

definition contact_get :: "resume \<Rightarrow> (contact_info \<Rightarrow> string option) \<Rightarrow> string option" where
  "contact_get data key = (case contact data of None \<Rightarrow> None | Some c \<Rightarrow> key c)"

text \<open>
  \<open>build_photo_block\<close>: when the photo path is set and the file exists, the file is
  copied into the output directory and the fragment names the copy.
\<close>

definition build_photo_block :: "world \<Rightarrow> resume \<Rightarrow> string outcome \<times> world" where
  "build_photo_block w data =
     (case contact_get data photo_path of
        None \<Rightarrow> (Returns [], w)
      | Some path \<Rightarrow>
          (case files w path of
             None \<Rightarrow> (Returns [], w)
           | Some photo \<Rightarrow>
               if path = [] then (Returns [], w)
               else
                 let photo_filename = os_path_basename path;
                     dest_path = os_path_join ''output'' photo_filename;
                     safe_path = str_replace [BS] ''/'' photo_filename
                 in if dest_path = path then (Unmodelled, w)
                    else (Returns ([BS] @ ''includegraphics[width=0.8'' @ [BS] @
                                   ''textwidth]{'' @ safe_path @ ''}''),
                          w\<lparr>files := (files w)(dest_path \<mapsto> photo)\<rparr>)))"

text \<open>The dictionary \<open>placeholders\<close> of \<open>generate_resume_latex\<close>, in its order.\<close>

definition placeholders :: "resume \<Rightarrow> string \<Rightarrow> (string \<times> string) list" where
  "placeholders data photo_block =
     (let linkedin_display =
        str_replace ''http://www.'' []
          (str_replace ''https://www.'' [] (dict_get (contact_get data linkedin) []))
      in [(''FULL_NAME'', sanitize_for_latex (dict_get (contact_get data full_name) [])),
          (''EMAIL'', sanitize_for_latex (dict_get (contact_get data email) [])),
          (''PHONE'', sanitize_for_latex (dict_get (contact_get data phone) [])),
          (''LINKEDIN'', sanitize_for_latex (dict_get (contact_get data linkedin) [])),
          (''LINKEDIN_DISPLAY'', sanitize_for_latex linkedin_display),
          (''SUMMARY_SECTION'', build_summary_section data),
          (''EXPERIENCE_SECTION'', build_experience_section data),
          (''EDUCATION_SECTION'', build_education_section data),
          (''SKILLS_SECTION'', build_skills_section data),
          (''LANGUAGES_SECTION'', build_languages_section data),
          (''PHOTO_BLOCK'', photo_block)])"

definition template_path_of :: "string \<Rightarrow> string" where
  "template_path_of template_name =
     os_path_join ''templates''
       (str_replace '' '' ''_'' (map py_lower template_name) @ ''.tex'')"

definition generate_resume_latex ::
  "rich_console \<Rightarrow> world \<Rightarrow> resume \<Rightarrow> string \<Rightarrow> string option outcome \<times> world" where
  "generate_resume_latex c w data template_name =
     (let template_path = template_path_of template_name
      in case files w template_path of
           None \<Rightarrow>
             (case rich_print c (TemplateNotFound template_path) w of
                Inl e \<Rightarrow> (Raises e, w)
              | Inr w' \<Rightarrow> (Returns None, w'))
         | Some template_string \<Rightarrow>
             (case build_photo_block w data of
                (Returns photo_block, w') \<Rightarrow>
                  (case str_format (map_of (placeholders data photo_block)) template_string of
                     Returns latex \<Rightarrow> (Returns (Some latex), w')
                   | Raises e \<Rightarrow> (Raises e, w')
                   | Unmodelled \<Rightarrow> (Unmodelled, w'))
              | (Raises e, w') \<Rightarrow> (Raises e, w')
              | (Unmodelled, w') \<Rightarrow> (Unmodelled, w')))"

text \<open>The keys of \<open>placeholders\<close>, and the field names that are plain identifiers.\<close>

definition placeholder_names :: "string list" where
  "placeholder_names =
     [''FULL_NAME'', ''EMAIL'', ''PHONE'', ''LINKEDIN'', ''LINKEDIN_DISPLAY'',
      ''SUMMARY_SECTION'', ''EXPERIENCE_SECTION'', ''EDUCATION_SECTION'', ''SKILLS_SECTION'',
      ''LANGUAGES_SECTION'', ''PHOTO_BLOCK'']"

definition plain_name :: "string \<Rightarrow> bool" where
  "plain_name n =
     (n \<noteq> [] \<and> \<not> list_all is_digit n \<and>
      list_all (\<lambda>c. \<not> field_stop c \<and> c \<noteq> CHR ''.'') n)"

section \<open>\<open>apply_ai_edits\<close> on a store of objects\<close>

text \<open>
  Whether the function writes to its argument cannot be read off a model on values. Here
  the objects that \<open>apply_ai_edits\<close> writes to, or through which it reaches what it
  writes to, live in a store: the profile \<open>dict\<close>, the \<open>list\<close> under \<open>experience\<close>, the
  \<open>dict\<close> of each entry and the \<open>list\<close> under its \<open>accomplishments\<close>. A reference is an
  address of the store. Strings are immutable, and the function has no statement that
  writes to the contact, the education, the skills or the languages: these are kept inside
  the profile object as values.
\<close>

type_synonym addr = nat

record resume_object =
  o_contact :: "contact_info option"
  o_summary :: "string option"
  o_experience :: "addr option"
  o_education :: "education_entry list option"
  o_skills :: "skill_set option"
  o_languages :: "string list option"

record entry_object =
  o_title :: "string option"
  o_company :: "string option"
  o_location :: "string option"
  o_dates :: "string option"
  o_accomplishments :: "addr option"

datatype py_object =
    ResumeDict resume_object
  | EntryList "addr list"
  | EntryDict entry_object
  | StringList "string list"

text \<open>
  The store is the list of its objects and the address of an object is its position. A
  new object goes to the end; a write replaces the object at an address.
\<close>

type_synonym heap = "py_object list"

definition heap_get :: "heap \<Rightarrow> addr \<Rightarrow> py_object option" where
  "heap_get h a = (if a < length h then Some (h ! a) else None)"

definition heap_new :: "heap \<Rightarrow> py_object \<Rightarrow> heap \<times> addr" where
  "heap_new h obj = (h @ [obj], length h)"

definition heap_set :: "heap \<Rightarrow> addr \<Rightarrow> py_object \<Rightarrow> heap" where
  "heap_set h a obj = h[a := obj]"

text \<open>The object at an address, when it is of the kind that the code expects there.\<close>

definition get_resume :: "heap \<Rightarrow> addr \<Rightarrow> resume_object option" where
  "get_resume h a = (case heap_get h a of Some (ResumeDict r) \<Rightarrow> Some r | _ \<Rightarrow> None)"

definition get_entries :: "heap \<Rightarrow> addr \<Rightarrow> addr list option" where
  "get_entries h a = (case heap_get h a of Some (EntryList as) \<Rightarrow> Some as | _ \<Rightarrow> None)"

definition get_entry :: "heap \<Rightarrow> addr \<Rightarrow> entry_object option" where
  "get_entry h a = (case heap_get h a of Some (EntryDict e) \<Rightarrow> Some e | _ \<Rightarrow> None)"

definition get_strings :: "heap \<Rightarrow> addr \<Rightarrow> string list option" where
  "get_strings h a = (case heap_get h a of Some (StringList xs) \<Rightarrow> Some xs | _ \<Rightarrow> None)"

text \<open>
  Sequencing. An object of another kind than the code expects, or a dangling address, is
  outside this model: \<open>Unmodelled\<close>. An exception ends the computation.
\<close>

definition known :: "'a option \<Rightarrow> ('a \<Rightarrow> 'b outcome) \<Rightarrow> 'b outcome" where
  "known v body = (case v of None \<Rightarrow> Unmodelled | Some x \<Rightarrow> body x)"

definition and_then :: "'a outcome \<Rightarrow> ('a \<Rightarrow> 'b outcome) \<Rightarrow> 'b outcome" where
  "and_then m body =
     (case m of Returns x \<Rightarrow> body x | Raises e \<Rightarrow> Raises e | Unmodelled \<Rightarrow> Unmodelled)"

definition raise_or :: "py_error + 'a \<Rightarrow> ('a \<Rightarrow> 'b outcome) \<Rightarrow> 'b outcome" where
  "raise_or v body = (case v of Inl e \<Rightarrow> Raises e | Inr x \<Rightarrow> body x)"

subsection \<open>\<open>copy.deepcopy\<close>\<close>

text \<open>
  \<open>copy.deepcopy\<close> builds a new object for every \<open>list\<close> and \<open>dict\<close> it reaches, the
  parts first. Its memo, which makes an object that is reached twice be copied once, is
  left out: the store model is for profiles in which no list of accomplishments belongs to
  two entries (\<open>unshared\<close> below), as in every profile read from JSON or typed in at the
  prompts, and there the memo is never consulted for an object that is written later.
\<close>

definition copy_string_list :: "heap \<Rightarrow> addr \<Rightarrow> (heap \<times> addr) outcome" where
  "copy_string_list h a =
     known (get_strings h a) (\<lambda>xs. Returns (heap_new h (StringList xs)))"

definition copy_entry :: "heap \<Rightarrow> addr \<Rightarrow> (heap \<times> addr) outcome" where
  "copy_entry h a =
     known (get_entry h a) (\<lambda>entry.
       case o_accomplishments entry of
         None \<Rightarrow> Returns (heap_new h (EntryDict entry))
       | Some l \<Rightarrow>
           and_then (copy_string_list h l) (\<lambda>(h1, l').
             Returns (heap_new h1 (EntryDict (entry\<lparr>o_accomplishments := Some l'\<rparr>)))))"

fun copy_entries :: "heap \<Rightarrow> addr list \<Rightarrow> (heap \<times> addr list) outcome" where
  "copy_entries h [] = Returns (h, [])"
| "copy_entries h (a # as) =
     and_then (copy_entry h a) (\<lambda>(h1, a').
       and_then (copy_entries h1 as) (\<lambda>(h2, as'). Returns (h2, a' # as')))"

definition copy_entry_list :: "heap \<Rightarrow> addr \<Rightarrow> (heap \<times> addr) outcome" where
  "copy_entry_list h a =
     known (get_entries h a) (\<lambda>as.
       and_then (copy_entries h as) (\<lambda>(h1, as'). Returns (heap_new h1 (EntryList as'))))"

definition deepcopy :: "heap \<Rightarrow> addr \<Rightarrow> (heap \<times> addr) outcome" where
  "deepcopy h a =
     known (get_resume h a) (\<lambda>r.
       case o_experience r of
         None \<Rightarrow> Returns (heap_new h (ResumeDict r))
       | Some l \<Rightarrow>
           and_then (copy_entry_list h l) (\<lambda>(h1, l').
             Returns (heap_new h1 (ResumeDict (r\<lparr>o_experience := Some l'\<rparr>)))))"

subsection \<open>The loop on the store\<close>

text \<open>
  The same statements as in \<open>edit_summary\<close>, \<open>edit_experience\<close> and \<open>try_edit\<close>, reading
  through references and writing in place: \<open>editable_resume['summary'] = ...\<close> replaces
  the profile object, and \<open>accomplishments[...] = ...\<close> replaces the list that the entry
  refers to. Each write is the last statement of its branch that can fail, so a \<open>try\<close>
  block that raises has written nothing.
\<close>

definition store_edit_summary :: "heap \<Rightarrow> addr \<Rightarrow> suggested_edit \<Rightarrow> heap outcome" where
  "store_edit_summary h editable_resume edit =
     known (get_resume h editable_resume) (\<lambda>r.
       raise_or (subscript ''original_text'' (original_text edit)) (\<lambda>orig.
         if dict_get (o_summary r) [] = orig then
           raise_or (subscript ''suggested_text'' (suggested_text edit)) (\<lambda>sugg.
             Returns (heap_set h editable_resume (ResumeDict (r\<lparr>o_summary := Some sugg\<rparr>))))
         else Returns h))"

definition store_replace_accomplishment ::
  "heap \<Rightarrow> suggested_edit \<Rightarrow> addr \<Rightarrow> string list \<Rightarrow> string \<Rightarrow> heap outcome" where
  "store_replace_accomplishment h edit accomplishments' accs orig =
     raise_or (subscript ''suggested_text'' (suggested_text edit)) (\<lambda>sugg.
       raise_or (list_index accs orig) (\<lambda>k.
         Returns (heap_set h accomplishments' (StringList (accs[k := sugg])))))"

definition store_edit_experience :: "heap \<Rightarrow> addr \<Rightarrow> suggested_edit \<Rightarrow> heap outcome" where
  "store_edit_experience h editable_resume edit =
     known (get_resume h editable_resume) (\<lambda>r.
       raise_or (subscript ''experience'' (o_experience r)) (\<lambda>l.
         known (get_entries h l) (\<lambda>entries.
           raise_or (subscript ''entry_index'' (entry_index edit)) (\<lambda>i.
             raise_or (list_position entries i) (\<lambda>j.
               known (get_entry h (entries ! j)) (\<lambda>entry.
                 raise_or (subscript ''accomplishments'' (o_accomplishments entry))
                   (\<lambda>accomplishments'.
                     known (get_strings h accomplishments') (\<lambda>accs.
                       raise_or (subscript ''original_text'' (original_text edit)) (\<lambda>orig.
                         if orig \<in> set accs
                         then store_replace_accomplishment h edit accomplishments' accs orig
                         else Returns h)))))))))"

definition store_try_edit :: "heap \<Rightarrow> addr \<Rightarrow> suggested_edit \<Rightarrow> heap outcome" where
  "store_try_edit h editable_resume edit =
     raise_or (subscript ''section'' (section edit)) (\<lambda>sec.
       if sec = ''summary'' then store_edit_summary h editable_resume edit
       else if sec = ''experience'' then store_edit_experience h editable_resume edit
       else Returns h)"

text \<open>
  The loop and the function return the store they leave behind together with the
  outcome, also when an exception leaves the function.
\<close>

fun store_edits_loop ::
  "rich_console \<Rightarrow> heap \<Rightarrow> addr \<Rightarrow> suggested_edit list \<Rightarrow> unit outcome \<times> heap" where
  "store_edits_loop rich h editable_resume [] = (Returns (), h)"
| "store_edits_loop rich h editable_resume (edit # edits) =
     (case store_try_edit h editable_resume edit of
        Returns h' \<Rightarrow> store_edits_loop rich h' editable_resume edits
      | Raises err \<Rightarrow>
          if \<not> caught err then (Raises err, h)
          else if renders rich (DataMismatch edit)
          then store_edits_loop rich h editable_resume edits
          else (Raises MarkupError, h)
      | Unmodelled \<Rightarrow> (Unmodelled, h))"

definition store_apply_ai_edits ::
  "rich_console \<Rightarrow> heap \<Rightarrow> addr \<Rightarrow> suggested_edit list \<Rightarrow> addr outcome \<times> heap" where
  "store_apply_ai_edits rich h resume_data edits =
     (case deepcopy h resume_data of
        Returns (h1, editable_resume) \<Rightarrow>
          (case store_edits_loop rich h1 editable_resume edits of
             (Returns u, h2) \<Rightarrow> (Returns editable_resume, h2)
           | (Raises err, h2) \<Rightarrow> (Raises err, h2)
           | (Unmodelled, h2) \<Rightarrow> (Unmodelled, h2))
      | Raises err \<Rightarrow> (Raises err, h)
      | Unmodelled \<Rightarrow> (Unmodelled, h))"

subsection \<open>Profiles in the store\<close>

text \<open>
  A profile at an address is well formed when every reference in it leads to an object of
  the right kind. \<open>profile_above n\<close> says moreover that the profile and all its parts
  lie at addresses from \<open>n\<close> on; with \<open>n = 0\<close> it is well-formedness alone.
\<close>

definition entry_above :: "nat \<Rightarrow> heap \<Rightarrow> addr \<Rightarrow> bool" where
  "entry_above n h a =
     (n \<le> a \<and>
      (case get_entry h a of
         None \<Rightarrow> False
       | Some entry \<Rightarrow>
           (case o_accomplishments entry of
              None \<Rightarrow> True
            | Some l \<Rightarrow> n \<le> l \<and> get_strings h l \<noteq> None)))"

definition profile_above :: "nat \<Rightarrow> heap \<Rightarrow> addr \<Rightarrow> bool" where
  "profile_above n h a =
     (n \<le> a \<and>
      (case get_resume h a of
         None \<Rightarrow> False
       | Some r \<Rightarrow>
           (case o_experience r of
              None \<Rightarrow> True
            | Some l \<Rightarrow>
                n \<le> l \<and>
                (case get_entries h l of
                   None \<Rightarrow> False
                 | Some as \<Rightarrow> list_all (entry_above n h) as))))"

text \<open>
  The content of the profile at an address, as a value of the type \<open>resume\<close>: what a deep
  comparison of the profile looks at.
\<close>

definition load_entry :: "heap \<Rightarrow> addr \<Rightarrow> experience_entry option" where
  "load_entry h a =
     (case get_entry h a of
        None \<Rightarrow> None
      | Some e \<Rightarrow>
          (case o_accomplishments e of
             None \<Rightarrow>
               Some \<lparr>title = o_title e, company = o_company e, location = o_location e,
                     dates = o_dates e, accomplishments = None\<rparr>
           | Some l \<Rightarrow>
               (case get_strings h l of
                  None \<Rightarrow> None
                | Some xs \<Rightarrow>
                    Some \<lparr>title = o_title e, company = o_company e, location = o_location e,
                          dates = o_dates e, accomplishments = Some xs\<rparr>)))"

fun load_entries :: "heap \<Rightarrow> addr list \<Rightarrow> experience_entry list option" where
  "load_entries h [] = Some []"
| "load_entries h (a # as) =
     (case load_entry h a of
        None \<Rightarrow> None
      | Some e \<Rightarrow> map_option (\<lambda>es. e # es) (load_entries h as))"

definition load_resume :: "heap \<Rightarrow> addr \<Rightarrow> resume option" where
  "load_resume h a =
     (case get_resume h a of
        None \<Rightarrow> None
      | Some r \<Rightarrow>
          (case o_experience r of
             None \<Rightarrow>
               Some \<lparr>contact = o_contact r, summary = o_summary r, experience = None,
                     education = o_education r, skills = o_skills r,
                     languages = o_languages r\<rparr>
           | Some l \<Rightarrow>
               (case get_entries h l of
                  None \<Rightarrow> None
                | Some as \<Rightarrow>
                    map_option
                      (\<lambda>es. \<lparr>contact = o_contact r, summary = o_summary r,
                             experience = Some es, education = o_education r,
                             skills = o_skills r, languages = o_languages r\<rparr>)
                      (load_entries h as))))"

text \<open>
  No list of accomplishments belongs to two entries of the profile: a write to the
  accomplishments of one entry shows in that entry alone.
\<close>

definition accomplishments_ref :: "heap \<Rightarrow> addr \<Rightarrow> addr option" where
  "accomplishments_ref h a =
     (case get_entry h a of None \<Rightarrow> None | Some e \<Rightarrow> o_accomplishments e)"

fun separated :: "heap \<Rightarrow> addr list \<Rightarrow> bool" where
  "separated h [] = True"
| "separated h (a # as) =
     ((case accomplishments_ref h a of
         None \<Rightarrow> True
       | Some l \<Rightarrow> list_all (\<lambda>b. accomplishments_ref h b \<noteq> Some l) as) \<and>
      separated h as)"

definition unshared :: "heap \<Rightarrow> addr \<Rightarrow> bool" where
  "unshared h a =
     (case get_resume h a of
        None \<Rightarrow> True
      | Some r \<Rightarrow>
          (case o_experience r of
             None \<Rightarrow> True
           | Some l \<Rightarrow>
               (case get_entries h l of None \<Rightarrow> True | Some as \<Rightarrow> separated h as)))"

text \<open>
  Two stores have the same shape when they agree on every object except for the summary
  of a profile and the strings of a list. This relation is used in the proofs only.
\<close>

definition same_shape :: "heap \<Rightarrow> heap \<Rightarrow> bool" where
  "same_shape h h' \<longleftrightarrow>
     (\<forall>x. get_entries h' x = get_entries h x \<and> get_entry h' x = get_entry h x \<and>
          (get_strings h' x = None \<longleftrightarrow> get_strings h x = None) \<and>
          map_option o_experience (get_resume h' x) = map_option o_experience (get_resume h x))"

section \<open>Example data\<close>

text \<open>The entry of the specification's end-to-end scenario, and further entries.\<close>

definition engineer_entry :: experience_entry where
  "engineer_entry =
     \<lparr>title = Some ''Engineer'', company = Some ''Acme'', location = None, dates = None,
      accomplishments = Some [''Built X'', ''Led Y'']\<rparr>"

definition analyst_entry :: experience_entry where
  "analyst_entry =
     \<lparr>title = Some ''Analyst'', company = Some ''B&B'', location = Some ''Oslo'',
      dates = Some ''2019'', accomplishments = None\<rparr>"

definition slash_entry :: experience_entry where
  "slash_entry =
     \<lparr>title = Some (''QA'' @ [BS] @ ''Dev''), company = None, location = None, dates = None,
      accomplishments = Some [''Cut cost 5'' @ [BS] @ ''%'']\<rparr>"

definition example_resume :: resume where
  "example_resume =
     \<lparr>contact = None, summary = Some ''Old summary'',
      experience = Some [engineer_entry, analyst_entry],
      education = None, skills = None, languages = None\<rparr>"

definition summary_edit :: suggested_edit where
  "summary_edit =
     \<lparr>section = Some ''summary'', entry_index = Some 0, field = Some ''summary'',
      original_text = Some ''Old summary'', suggested_text = Some ''New summary''\<rparr>"

definition accomplishment_edit :: suggested_edit where
  "accomplishment_edit =
     \<lparr>section = Some ''experience'', entry_index = Some 0, field = Some ''accomplishments'',
      original_text = Some ''Built X'', suggested_text = Some ''Built X using Z''\<rparr>"

definition last_entry_edit :: suggested_edit where
  "last_entry_edit =
     \<lparr>section = Some ''experience'', entry_index = Some (- 1),
      field = Some ''accomplishments'',
      original_text = Some ''Led Y'', suggested_text = Some ''Led Y and Z''\<rparr>"

definition out_of_range_edit :: suggested_edit where
  "out_of_range_edit =
     \<lparr>section = Some ''experience'', entry_index = Some 2, field = Some ''accomplishments'',
      original_text = Some ''Built X'', suggested_text = Some ''Built W''\<rparr>"

text \<open>
  Two edits that the \<open>try\<close> block rejects and whose original text holds the closing tag
  \<open>[/b]\<close>: one with an index beyond the two entries, one without the key
  \<open>entry_index\<close>.
\<close>

definition tagged_edit :: suggested_edit where
  "tagged_edit =
     \<lparr>section = Some ''experience'', entry_index = Some 2, field = Some ''accomplishments'',
      original_text = Some ''Built X [/b]'', suggested_text = Some ''Built W''\<rparr>"

definition untargeted_edit :: suggested_edit where
  "untargeted_edit =
     \<lparr>section = Some ''experience'', entry_index = None, field = Some ''accomplishments'',
      original_text = Some ''Led Y [/b]'', suggested_text = Some ''Led Z''\<rparr>"

text \<open>
  The console of the examples. The message about an edit is
  \<open>[yellow]Could not apply an edit due to data mismatch: {edit}[/yellow]\<close> with the
  \<open>repr\<close> of the edit, which shows the original text as it is. When that text holds
  \<open>[/b]\<close>, rich meets a closing tag while only \<open>yellow\<close> is open and raises
  \<open>MarkupError\<close>. The other messages of the examples hold no bracket of their own and
  render.
\<close>

definition example_console :: rich_console where
  "example_console m =
     (case m of
        DataMismatch edit \<Rightarrow> \<not> sublist ''[/b]'' (dict_get (original_text edit) [])
      | _ \<Rightarrow> True)"

definition unmatched_summary_edit :: suggested_edit where
  "unmatched_summary_edit =
     \<lparr>section = Some ''summary'', entry_index = Some 0, field = Some ''summary'',
      original_text = Some ''Different text'', suggested_text = Some ''New summary''\<rparr>"

definition unmatched_accomplishment_edit :: suggested_edit where
  "unmatched_accomplishment_edit =
     \<lparr>section = Some ''experience'', entry_index = Some 0, field = Some ''accomplishments'',
      original_text = Some ''Built Q'', suggested_text = Some ''Built R''\<rparr>"

definition reversed_resume :: resume where
  "reversed_resume = example_resume\<lparr>experience := Some [analyst_entry, engineer_entry]\<rparr>"

text \<open>A typesetting tool that fails on its first run, after writing its \<open>.aux\<close> and
  \<open>.log\<close> files.\<close>

definition failing_pdflatex ::
  "string \<Rightarrow> (string \<rightharpoonup> string) \<Rightarrow> int \<times> string \<times> (string \<rightharpoonup> string)" where
  "failing_pdflatex tex_filepath fs =
     (1, ''! Undefined control sequence.'',
      fs(''output/resume.aux'' \<mapsto> ''aux'', ''output/resume.log'' \<mapsto> ''log''))"

definition failing_environment :: environment where
  "failing_environment =
     \<lparr>pdflatex_found = True, pdflatex = failing_pdflatex, writable = (\<lambda>p. True),
      removable = (\<lambda>p. True), rich_markup = example_console\<rparr>"

definition empty_world :: world where
  "empty_world = \<lparr>files = Map.empty, console = []\<rparr>"

text \<open>A template with a placeholder that the renderer does not know.\<close>

definition nickname_world :: world where
  "nickname_world =
     \<lparr>files = [''templates/modern.tex'' \<mapsto> ''Name: {FULL_NAME} ({NICKNAME}) {EMAIL}''],
      console = []\<rparr>"

definition named_resume :: resume where
  "named_resume =
     example_resume
       \<lparr>contact := Some \<lparr>full_name = Some ''Ada'', email = Some ''ada@example.org'',
                          phone = None, linkedin = None, photo_path = None\<rparr>\<rparr>"

text \<open>
  A profile with reserved characters in every section, and a world that holds its photo.
\<close>

definition special_resume :: resume where
  "special_resume =
     \<lparr>contact = Some \<lparr>full_name = None, email = None, phone = None, linkedin = None,
                        photo_path = Some ''photos/me_1.png''\<rparr>,
      summary = Some ''R&D for 100% of teams'',
      experience =
        Some [\<lparr>title = Some ''Dev_Ops'', company = Some ''B&B'', location = Some ''Oslo #1'',
               dates = Some ''2019~2021'',
               accomplishments = Some [''Cut cost 5%'', ''Led {team}'']\<rparr>],
      education =
        Some [\<lparr>institution = Some ''MIT & Co'', degree = Some ''B.Sc_CS'',
               edu_location = Some ''US$'', edu_dates = Some ''2015^''\<rparr>],
      skills = Some \<lparr>technical = Some [''C#'', ''R&D''], professional = None\<rparr>,
      languages = Some [''EN_US'']\<rparr>"

definition photo_world :: world where
  "photo_world = \<lparr>files = [''photos/me_1.png'' \<mapsto> ''PNG''], console = []\<rparr>"

text \<open>The profile \<open>example_resume\<close> as objects in a store; the profile object is at address 4.\<close>

definition example_heap :: heap where
  "example_heap =
     [StringList [''Built X'', ''Led Y''],
      EntryDict \<lparr>o_title = Some ''Engineer'', o_company = Some ''Acme'', o_location = None,
                 o_dates = None, o_accomplishments = Some 0\<rparr>,
      EntryDict \<lparr>o_title = Some ''Analyst'', o_company = Some ''B&B'',
                 o_location = Some ''Oslo'', o_dates = Some ''2019'',
                 o_accomplishments = None\<rparr>,
      EntryList [1, 2],
      ResumeDict \<lparr>o_contact = None, o_summary = Some ''Old summary'', o_experience = Some 3,
                  o_education = None, o_skills = None, o_languages = None\<rparr>]"

section \<open>Properties of the sanitizer\<close>

text \<open>All keys have length one, so the stable sort by length keeps the insertion order.\<close>

lemma sorted_keys_conv: "sorted_keys conv = conv"
  by (simp add: sorted_keys_def conv_def)

lemma first_match_conv:
  "first_match conv (c # cs) =
     (case map_of conv [c] of Some v \<Rightarrow> Some ([c], v) | None \<Rightarrow> None)"
  by (simp add: conv_def)

lemma re_sub_conv: "re_sub conv s = concat (map escape_char s)"
proof (induction s)
  case Nil
  show ?case by simp
next
  case (Cons c cs)
  show ?case
    by (simp add: first_match_conv escape_char_def Cons.IH split: option.splits)
qed

lemma sanitize_concat: "sanitize_for_latex s = concat (map escape_char s)"
  by (simp add: sanitize_for_latex_def sorted_keys_conv re_sub_conv)

lemma sanitize_Nil: "sanitize_for_latex [] = []"
  by (simp add: sanitize_for_latex_def)

lemma sanitize_Cons: "sanitize_for_latex (c # cs) = escape_char c @ sanitize_for_latex cs"
  by (simp add: sanitize_concat)

lemma reserved_iff:
  "reserved c \<longleftrightarrow>
     c \<in> {CHR ''&'', CHR ''%'', CHR ''$'', CHR ''#'', CHR ''_'', CHR ''{'', CHR ''}'',
          CHR ''~'', CHR ''^'', BS}"
  by (auto simp add: reserved_def conv_def)

lemma escape_char_plain: "\<not> reserved c \<Longrightarrow> escape_char c = [c]"
  by (simp add: reserved_iff escape_char_def conv_def)








section \<open>Properties of \<open>build_experience_section\<close>\<close>

subsection \<open>The loops append one block per element\<close>

lemma fold_accomplishment_step:
  "fold accomplishment_step accs s =
     s @ concat (map (\<lambda>a. accomplishment_markup (accomplishment_rewrite (sanitize_for_latex a)))
                   accs)"
  by (induction accs arbitrary: s) (simp_all add: accomplishment_step_def)

lemma entry_step_append: "entry_step e s = s @ experience_block e"
  by (simp add: entry_step_def experience_block_def Let_def fold_accomplishment_step)

lemma fold_entry_step: "fold entry_step es s = s @ concat (map experience_block es)"
  by (induction es arbitrary: s) (simp_all add: entry_step_append)

lemma truthy_iff: "truthy v \<longleftrightarrow> v \<noteq> None \<and> v \<noteq> Some []"
  by (simp add: truthy_def split: option.splits)

lemma experience_block_eq:
  "experience_block entry =
     entry_markup (title_rewrite (sanitize_for_latex (dict_get (title entry) [])))
       (sanitize_for_latex (dict_get (dates entry) []))
       (sanitize_for_latex (dict_get (company entry) []))
       (sanitize_for_latex (dict_get (location entry) [])) @
     (if truthy (accomplishments entry)
      then accomplishments_header @
           concat (map (\<lambda>acc. accomplishment_markup
                                 (accomplishment_rewrite (sanitize_for_latex acc)))
                     (dict_get (accomplishments entry) [])) @
           accomplishments_footer
      else [])"
  by (simp add: experience_block_def entry_step_def Let_def fold_accomplishment_step)

text \<open>
  C7. \<open>build_experience_section\<close> returns the empty string when the experience list is
  missing or empty. Otherwise its output is the opening of the section, then one block
  per entry, in the order of the list, then the closing line. The block of an entry is the
  \<open>\item\<close> with the table of its title, dates, company and location, followed, when the
  entry has accomplishments, by the list of their lines.
\<close>

theorem build_experience_section_blocks:
  "build_experience_section data =
     (if experience data = None \<or> experience data = Some [] then []
      else
        [BS] @ ''section*{Professional Experience}'' @ [NL, BS] @
        ''begin{itemize}[leftmargin=0.15in, label={}]'' @ [NL] @
        concat
          (map (\<lambda>entry.
             ''  '' @ [BS] @ ''item'' @ [NL] @ ''    '' @ [BS] @ ''begin{tabular*}{'' @ [BS] @
             ''textwidth}{'' @ [CHR 0x40] @ ''{'' @ [BS] @ ''extracolsep{'' @ [BS] @
             ''fill}}l r}'' @ [NL] @ ''      '' @ [BS] @ ''textbf{'' @ [BS] @ ''large '' @
             title_rewrite (sanitize_for_latex (dict_get (title entry) [])) @
             ''} & {'' @ [BS] @ ''small '' @ sanitize_for_latex (dict_get (dates entry) []) @
             ''} '' @ [BS, BS, NL] @ ''      '' @ [BS] @ ''textit{'' @ [BS] @ ''small '' @
             sanitize_for_latex (dict_get (company entry) []) @
             ''} & '' @ [BS] @ ''textit{'' @ [BS] @ ''small '' @
             sanitize_for_latex (dict_get (location entry) []) @
             ''} '' @ [BS, BS, NL] @ ''    '' @ [BS] @ ''end{tabular*}'' @ [BS] @
             ''vspace{-2pt}'' @ [NL] @
             (if accomplishments entry = None \<or> accomplishments entry = Some [] then []
              else ''    '' @ [BS] @
                   ''begin{itemize}[leftmargin=0.2in, topsep=0pt, itemsep=-2pt]'' @ [NL] @
                   concat (map (\<lambda>acc. ''      '' @ [BS] @ ''item '' @ [BS] @ ''small{'' @
                                       accomplishment_rewrite (sanitize_for_latex acc) @
                                       ''}'' @ [NL])
                            (dict_get (accomplishments entry) [])) @
                   ''    '' @ [BS] @ ''end{itemize}'' @ [NL]))
           (dict_get (experience data) [])) @
        [BS] @ ''end{itemize}'' @ [NL, NL])"
proof -
  have "experience_block =
      (\<lambda>entry.
             ''  '' @ [BS] @ ''item'' @ [NL] @ ''    '' @ [BS] @ ''begin{tabular*}{'' @ [BS] @
             ''textwidth}{'' @ [CHR 0x40] @ ''{'' @ [BS] @ ''extracolsep{'' @ [BS] @
             ''fill}}l r}'' @ [NL] @ ''      '' @ [BS] @ ''textbf{'' @ [BS] @ ''large '' @
             title_rewrite (sanitize_for_latex (dict_get (title entry) [])) @
             ''} & {'' @ [BS] @ ''small '' @ sanitize_for_latex (dict_get (dates entry) []) @
             ''} '' @ [BS, BS, NL] @ ''      '' @ [BS] @ ''textit{'' @ [BS] @ ''small '' @
             sanitize_for_latex (dict_get (company entry) []) @
             ''} & '' @ [BS] @ ''textit{'' @ [BS] @ ''small '' @
             sanitize_for_latex (dict_get (location entry) []) @
             ''} '' @ [BS, BS, NL] @ ''    '' @ [BS] @ ''end{tabular*}'' @ [BS] @
             ''vspace{-2pt}'' @ [NL] @
             (if accomplishments entry = None \<or> accomplishments entry = Some [] then []
              else ''    '' @ [BS] @
                   ''begin{itemize}[leftmargin=0.2in, topsep=0pt, itemsep=-2pt]'' @ [NL] @
                   concat (map (\<lambda>acc. ''      '' @ [BS] @ ''item '' @ [BS] @ ''small{'' @
                                       accomplishment_rewrite (sanitize_for_latex acc) @
                                       ''}'' @ [NL])
                            (dict_get (accomplishments entry) [])) @
                   ''    '' @ [BS] @ ''end{itemize}'' @ [NL]))"
    by (rule ext)
      (simp add: experience_block_eq truthy_iff entry_markup_def accomplishments_header_def
        accomplishment_markup_def accomplishments_footer_def)
  then show ?thesis
    by (simp add: build_experience_section_def truthy_iff fold_entry_step experience_header_def
        experience_footer_def)
qed

text \<open>
  Two entries, the second with the company \<open>B&B\<close>: two blocks in the order of the list,
  and in the other order for the list reversed.
\<close>

theorem build_experience_section_blocks_witness:
  "build_experience_section example_resume =
     [BS] @ ''section*{Professional Experience}'' @ [NL, BS] @
     ''begin{itemize}[leftmargin=0.15in, label={}]'' @ [NL] @ ''  '' @ [BS] @ ''item'' @ [NL] @
     ''    '' @ [BS] @ ''begin{tabular*}{'' @ [BS] @ ''textwidth}{'' @ [CHR 0x40] @ ''{'' @ [BS] @
     ''extracolsep{'' @ [BS] @ ''fill}}l r}'' @ [NL] @ ''      '' @ [BS] @ ''textbf{'' @ [BS] @
     ''large Engineer} & {'' @ [BS] @ ''small } '' @ [BS, BS, NL] @ ''      '' @ [BS] @
     ''textit{'' @ [BS] @ ''small Acme} & '' @ [BS] @ ''textit{'' @ [BS] @ ''small } '' @
     [BS, BS, NL] @ ''    '' @ [BS] @ ''end{tabular*}'' @ [BS] @ ''vspace{-2pt}'' @ [NL] @
     ''    '' @ [BS] @ ''begin{itemize}[leftmargin=0.2in, topsep=0pt, itemsep=-2pt]'' @ [NL] @
     ''      '' @ [BS] @ ''item '' @ [BS] @ ''small{Built X}'' @ [NL] @ ''      '' @ [BS] @
     ''item '' @ [BS] @ ''small{Led Y}'' @ [NL] @ ''    '' @ [BS] @ ''end{itemize}'' @ [NL] @
     ''  '' @ [BS] @ ''item'' @ [NL] @ ''    '' @ [BS] @ ''begin{tabular*}{'' @ [BS] @
     ''textwidth}{'' @ [CHR 0x40] @ ''{'' @ [BS] @ ''extracolsep{'' @ [BS] @ ''fill}}l r}'' @
     [NL] @ ''      '' @ [BS] @ ''textbf{'' @ [BS] @ ''large Analyst} & {'' @ [BS] @
     ''small 2019} '' @ [BS, BS, NL] @ ''      '' @ [BS] @ ''textit{'' @ [BS] @ ''small B'' @
     [BS] @ ''&B} & '' @ [BS] @ ''textit{'' @ [BS] @ ''small Oslo} '' @ [BS, BS, NL] @ ''    '' @
     [BS] @ ''end{tabular*}'' @ [BS] @ ''vspace{-2pt}'' @ [NL, BS] @ ''end{itemize}'' @ [NL, NL] \<and>
   build_experience_section reversed_resume =
     [BS] @ ''section*{Professional Experience}'' @ [NL, BS] @
     ''begin{itemize}[leftmargin=0.15in, label={}]'' @ [NL] @ ''  '' @ [BS] @ ''item'' @ [NL] @
     ''    '' @ [BS] @ ''begin{tabular*}{'' @ [BS] @ ''textwidth}{'' @ [CHR 0x40] @ ''{'' @ [BS] @
     ''extracolsep{'' @ [BS] @ ''fill}}l r}'' @ [NL] @ ''      '' @ [BS] @ ''textbf{'' @ [BS] @
     ''large Analyst} & {'' @ [BS] @ ''small 2019} '' @ [BS, BS, NL] @ ''      '' @ [BS] @
     ''textit{'' @ [BS] @ ''small B'' @ [BS] @ ''&B} & '' @ [BS] @ ''textit{'' @ [BS] @
     ''small Oslo} '' @ [BS, BS, NL] @ ''    '' @ [BS] @ ''end{tabular*}'' @ [BS] @
     ''vspace{-2pt}'' @ [NL] @ ''  '' @ [BS] @ ''item'' @ [NL] @ ''    '' @ [BS] @
     ''begin{tabular*}{'' @ [BS] @ ''textwidth}{'' @ [CHR 0x40] @ ''{'' @ [BS] @
     ''extracolsep{'' @ [BS] @ ''fill}}l r}'' @ [NL] @ ''      '' @ [BS] @ ''textbf{'' @ [BS] @
     ''large Engineer} & {'' @ [BS] @ ''small } '' @ [BS, BS, NL] @ ''      '' @ [BS] @
     ''textit{'' @ [BS] @ ''small Acme} & '' @ [BS] @ ''textit{'' @ [BS] @ ''small } '' @
     [BS, BS, NL] @ ''    '' @ [BS] @ ''end{tabular*}'' @ [BS] @ ''vspace{-2pt}'' @ [NL] @
     ''    '' @ [BS] @ ''begin{itemize}[leftmargin=0.2in, topsep=0pt, itemsep=-2pt]'' @ [NL] @
     ''      '' @ [BS] @ ''item '' @ [BS] @ ''small{Built X}'' @ [NL] @ ''      '' @ [BS] @
     ''item '' @ [BS] @ ''small{Led Y}'' @ [NL] @ ''    '' @ [BS] @ ''end{itemize}'' @ [NL, BS] @
     ''end{itemize}'' @ [NL, NL] \<and>
   build_experience_section (example_resume\<lparr>experience := Some []\<rparr>) = [] \<and>
   build_experience_section (example_resume\<lparr>experience := None\<rparr>) = []"
  using build_experience_section_blocks [of example_resume]
    build_experience_section_blocks [of reversed_resume]
    build_experience_section_blocks [of "example_resume\<lparr>experience := Some []\<rparr>"]
    build_experience_section_blocks [of "example_resume\<lparr>experience := None\<rparr>"]
  by (simp add: example_resume_def reversed_resume_def engineer_entry_def analyst_entry_def
      dict_get_def sanitize_concat escape_char_def conv_def title_rewrite_def
      accomplishment_rewrite_def)

subsection \<open>When the two rewrites leave sanitized text alone\<close>

lemma title_rewrite_plain:
  "\<not> reserved c \<Longrightarrow> title_rewrite (escape_char c @ r) = escape_char c @ title_rewrite r"
  by (auto simp add: escape_char_plain title_rewrite_def reserved_iff)

lemma title_rewrite_reserved:
  "title_rewrite (escape_char (CHR ''&'') @ r) = escape_char (CHR ''&'') @ title_rewrite r"
  "title_rewrite (escape_char (CHR ''%'') @ r) = escape_char (CHR ''%'') @ title_rewrite r"
  "title_rewrite (escape_char (CHR ''$'') @ r) = escape_char (CHR ''$'') @ title_rewrite r"
  "title_rewrite (escape_char (CHR ''#'') @ r) = escape_char (CHR ''#'') @ title_rewrite r"
  "title_rewrite (escape_char (CHR ''_'') @ r) = escape_char (CHR ''_'') @ title_rewrite r"
  "title_rewrite (escape_char (CHR ''{'') @ r) = escape_char (CHR ''{'') @ title_rewrite r"
  "title_rewrite (escape_char (CHR ''}'') @ r) = escape_char (CHR ''}'') @ title_rewrite r"
  "title_rewrite (escape_char (CHR ''~'') @ r) = escape_char (CHR ''~'') @ title_rewrite r"
  "title_rewrite (escape_char (CHR ''^'') @ r) = escape_char (CHR ''^'') @ title_rewrite r"
  by (simp_all add: escape_char_def conv_def title_rewrite_def)

lemma title_rewrite_step:
  "c \<noteq> BS \<Longrightarrow> title_rewrite (escape_char c @ r) = escape_char c @ title_rewrite r"
proof (cases "reserved c")
  case False
  then show ?thesis by (rule title_rewrite_plain)
next
  case True
  assume "c \<noteq> BS"
  with True show ?thesis unfolding reserved_iff
    by (elim insertE emptyE) (simp_all add: title_rewrite_reserved)
qed

lemma title_rewrite_sanitize:
  "BS \<notin> set t \<Longrightarrow> title_rewrite (sanitize_for_latex t) = sanitize_for_latex t"
proof (induction t)
  case Nil
  show ?case by (simp add: sanitize_Nil title_rewrite_def)
next
  case (Cons c t)
  then show ?case by (auto simp add: sanitize_Cons title_rewrite_step)
qed

lemma acc_rewrite_plain:
  "\<not> reserved c \<Longrightarrow>
     accomplishment_rewrite (escape_char c @ r) = escape_char c @ accomplishment_rewrite r"
  by (auto simp add: escape_char_plain accomplishment_rewrite_def reserved_iff)

lemma acc_rewrite_reserved:
  "accomplishment_rewrite (escape_char (CHR ''&'') @ r) =
     escape_char (CHR ''&'') @ accomplishment_rewrite r"
  "accomplishment_rewrite (escape_char (CHR ''%'') @ r) =
     escape_char (CHR ''%'') @ accomplishment_rewrite r"
  "accomplishment_rewrite (escape_char (CHR ''$'') @ r) =
     escape_char (CHR ''$'') @ accomplishment_rewrite r"
  "accomplishment_rewrite (escape_char (CHR ''#'') @ r) =
     escape_char (CHR ''#'') @ accomplishment_rewrite r"
  "accomplishment_rewrite (escape_char (CHR ''_'') @ r) =
     escape_char (CHR ''_'') @ accomplishment_rewrite r"
  "accomplishment_rewrite (escape_char (CHR ''{'') @ r) =
     escape_char (CHR ''{'') @ accomplishment_rewrite r"
  "accomplishment_rewrite (escape_char (CHR ''}'') @ r) =
     escape_char (CHR ''}'') @ accomplishment_rewrite r"
  "accomplishment_rewrite (escape_char (CHR ''~'') @ r) =
     escape_char (CHR ''~'') @ accomplishment_rewrite r"
  "accomplishment_rewrite (escape_char (CHR ''^'') @ r) =
     escape_char (CHR ''^'') @ accomplishment_rewrite r"
  by (simp_all add: escape_char_def conv_def accomplishment_rewrite_def)

lemma acc_rewrite_backslash:
  "\<not> prefix [BS, CHR ''%''] r \<Longrightarrow>
     accomplishment_rewrite (escape_char BS @ r) = escape_char BS @ accomplishment_rewrite r"
  by (simp add: escape_char_def conv_def accomplishment_rewrite_def)

lemma acc_rewrite_step:
  "c \<noteq> BS \<Longrightarrow>
     accomplishment_rewrite (escape_char c @ r) = escape_char c @ accomplishment_rewrite r"
proof (cases "reserved c")
  case False
  then show ?thesis by (rule acc_rewrite_plain)
next
  case True
  assume "c \<noteq> BS"
  with True show ?thesis unfolding reserved_iff
    by (elim insertE emptyE) (simp_all add: acc_rewrite_reserved)
qed

lemma escaped_percent_head:
  "prefix [BS, CHR ''%''] (escape_char c @ r) \<longleftrightarrow> c = CHR ''%''"
proof (cases "reserved c")
  case False
  then show ?thesis by (auto simp add: escape_char_plain reserved_iff)
next
  case True
  then show ?thesis unfolding reserved_iff
    by (elim insertE emptyE) (simp_all add: escape_char_def conv_def)
qed

lemma escaped_percent_prefix:
  "prefix [BS, CHR ''%''] (sanitize_for_latex t) \<longleftrightarrow> prefix ''%'' t"
  by (cases t) (auto simp add: sanitize_Nil sanitize_Cons escaped_percent_head)

lemma acc_rewrite_sanitize:
  "\<not> sublist [BS, CHR ''%''] a \<Longrightarrow>
     accomplishment_rewrite (sanitize_for_latex a) = sanitize_for_latex a"
proof (induction a)
  case Nil
  show ?case by (simp add: sanitize_Nil accomplishment_rewrite_def)
next
  case (Cons c a)
  from Cons.prems have np: "\<not> prefix [BS, CHR ''%''] (c # a)"
    and ns: "\<not> sublist [BS, CHR ''%''] a"
    by (simp_all add: sublist_Cons_right)
  from Cons.IH [OF ns]
  have ih: "accomplishment_rewrite (sanitize_for_latex a) = sanitize_for_latex a" .
  show ?case
  proof (cases "c = BS")
    case False
    then show ?thesis by (simp add: sanitize_Cons acc_rewrite_step ih)
  next
    case True
    with np have "\<not> prefix ''%'' a" by simp
    then have "\<not> prefix [BS, CHR ''%''] (sanitize_for_latex a)"
      by (simp add: escaped_percent_prefix)
    with True show ?thesis by (simp add: sanitize_Cons acc_rewrite_backslash ih)
  qed
qed

section \<open>Properties of the Section Builders\<close>

subsection \<open>What each builder puts around the values\<close>

lemma fold_education_step:
  "fold education_step es s =
     s @ concat (map (\<lambda>entry.
            education_markup (sanitize_for_latex (dict_get (institution entry) []))
              (sanitize_for_latex (dict_get (edu_dates entry) []))
              (sanitize_for_latex (dict_get (degree entry) []))
              (sanitize_for_latex (dict_get (edu_location entry) []))) es)"
  by (induction es arbitrary: s) (simp_all add: education_step_def)

lemma fold_skill_step:
  "fold skill_step ks s =
     s @ concat (map (\<lambda>skill. ''            '' @ [BS] @ ''item '' @ clean_skill skill @ [NL]) ks)"
  by (induction ks arbitrary: s) (simp_all add: skill_step_def)

lemma fold_language_step:
  "fold language_step ls s =
     s @ concat (map (\<lambda>lang. ''    '' @ [BS] @ ''item '' @ sanitize_for_latex lang @ [NL]) ls)"
  by (induction ls arbitrary: s) (simp_all add: language_step_def)

lemma str_replace_absent: "\<not> sublist old s \<Longrightarrow> str_replace old new s = s"
proof (induction s)
  case Nil
  show ?case by simp
next
  case (Cons c cs)
  from Cons.prems have "\<not> prefix old (c # cs)" and "\<not> sublist old cs"
    by (simp_all add: sublist_Cons_right)
  with Cons.IH show ?case by simp
qed

lemma summary_section_eq:
  "build_summary_section data =
     (if summary data = None \<or> summary data = Some [] then []
      else [BS] @ ''section*{Summary}'' @ [NL] @ sanitize_for_latex (dict_get (summary data) []) @
           [BS] @ ''vspace{10pt}'' @ [NL])"
  by (simp add: build_summary_section_def truthy_iff)

lemma experience_section_eq:
  "build_experience_section data =
     (if experience data = None \<or> experience data = Some [] then []
      else experience_header @
           concat
             (map (\<lambda>entry.
                entry_markup (title_rewrite (sanitize_for_latex (dict_get (title entry) [])))
                  (sanitize_for_latex (dict_get (dates entry) []))
                  (sanitize_for_latex (dict_get (company entry) []))
                  (sanitize_for_latex (dict_get (location entry) [])) @
                (if accomplishments entry = None \<or> accomplishments entry = Some [] then []
                 else accomplishments_header @
                      concat (map (\<lambda>acc. accomplishment_markup
                                            (accomplishment_rewrite (sanitize_for_latex acc)))
                                (dict_get (accomplishments entry) [])) @
                      accomplishments_footer))
              (dict_get (experience data) [])) @
           experience_footer)"
proof -
  have "experience_block =
      (\<lambda>entry.
                entry_markup (title_rewrite (sanitize_for_latex (dict_get (title entry) [])))
                  (sanitize_for_latex (dict_get (dates entry) []))
                  (sanitize_for_latex (dict_get (company entry) []))
                  (sanitize_for_latex (dict_get (location entry) [])) @
                (if accomplishments entry = None \<or> accomplishments entry = Some [] then []
                 else accomplishments_header @
                      concat (map (\<lambda>acc. accomplishment_markup
                                            (accomplishment_rewrite (sanitize_for_latex acc)))
                                (dict_get (accomplishments entry) [])) @
                      accomplishments_footer))"
    by (rule ext) (simp add: experience_block_eq truthy_iff)
  then show ?thesis
    by (simp add: build_experience_section_def truthy_iff fold_entry_step)
qed

lemma education_section_eq:
  "build_education_section data =
     (if education data = None \<or> education data = Some [] then []
      else education_header @
           concat
             (map (\<lambda>entry.
                education_markup (sanitize_for_latex (dict_get (institution entry) []))
                  (sanitize_for_latex (dict_get (edu_dates entry) []))
                  (sanitize_for_latex (dict_get (degree entry) []))
                  (sanitize_for_latex (dict_get (edu_location entry) [])))
              (dict_get (education data) [])) @
           [BS] @ ''end{itemize}'' @ [NL, NL])"
  by (simp add: build_education_section_def truthy_iff fold_education_step)

lemma skills_section_eq:
  "build_skills_section data =
     (case skills data of
        None \<Rightarrow> []
      | Some sk \<Rightarrow>
          let tech_skills = dict_get (technical sk) [];
              prof_skills = dict_get (professional sk) [];
              col_width = (if tech_skills \<noteq> [] \<and> prof_skills \<noteq> [] then ''0.5'' else ''1.0'')
          in if tech_skills = [] \<and> prof_skills = [] then []
             else [BS] @ ''section*{Skills}'' @ [NL, BS] @ ''noindent'' @ [NL] @
                  (if tech_skills = [] then []
                   else minipage_open col_width ''Technical Skills'' @
                        concat (map (\<lambda>skill. ''            '' @ [BS] @ ''item '' @ clean_skill skill @ [NL])
                                  tech_skills) @
                        minipage_close @ (if prof_skills = [] then [] else ''%'' @ [NL])) @
                  (if prof_skills = [] then []
                   else minipage_open col_width ''Professional Skills'' @
                        concat (map (\<lambda>skill. ''            '' @ [BS] @ ''item '' @ clean_skill skill @ [NL])
                                  prof_skills) @
                        minipage_close @ [NL, NL]))"
  by (simp add: build_skills_section_def truthy_iff fold_skill_step Let_def dict_get_def
      split: option.splits)

lemma languages_section_eq:
  "build_languages_section data =
     (if languages data = None \<or> languages data = Some [] then []
      else [BS] @ ''section*{Languages}'' @ [NL, BS] @
           ''begin{itemize}[leftmargin=0.15in, topsep=0pt]'' @ [NL] @
           concat (map (\<lambda>lang. ''    '' @ [BS] @ ''item '' @ sanitize_for_latex lang @ [NL])
                     (dict_get (languages data) [])) @
           [BS] @ ''end{itemize}'' @ [NL])"
  by (simp add: build_languages_section_def truthy_iff fold_language_step)

lemma photo_block_eq:
  "(contact_get data photo_path = Some path \<and> path \<noteq> [] \<and> files w path = Some photo \<and>
      os_path_join ''output'' (os_path_basename path) \<noteq> path \<longrightarrow>
    fst (build_photo_block w data) =
      Returns ([BS] @ ''includegraphics[width=0.8'' @ [BS] @ ''textwidth]{'' @
               str_replace [BS] ''/'' (os_path_basename path) @ ''}''))"
  by (simp add: build_photo_block_def Let_def)

lemma clean_skill_absent:
  "(\<not> sublist ([BS] @ ''textbackslash{}'' @ [BS] @ ''&'') raw_skill \<longrightarrow>
      clean_skill raw_skill = sanitize_for_latex raw_skill)"
  by (simp add: clean_skill_def str_replace_absent)

subsection \<open>C8: what is embedded\<close>

text \<open>
  C8, as stated, fails. The title \<open>QA\Dev\<close> is sanitized to \<open>QA\textbackslash{}Dev\<close>,
  but the fragment holds \<open>QA/Dev\<close> and the sanitizer's output occurs nowhere in it. The
  accomplishment \<open>Cut cost 5\%\<close> is sanitized to \<open>Cut cost 5\textbackslash{}\%\<close>, but the
  fragment holds \<open>Cut cost 5\%\<close>. The skill \<open>R\textbackslash{}\&D\<close> is embedded as
  \<open>R \& D\<close>, which is not what the sanitizer returns for it. The photo builder embeds the
  file name \<open>me_1.png\<close> as it is, where the sanitizer returns \<open>me\_1.png\<close>.
\<close>

theorem section_builders_rewrites_counterexample:
  "build_experience_section (example_resume\<lparr>experience := Some [slash_entry]\<rparr>) =
     [BS] @ ''section*{Professional Experience}'' @ [NL, BS] @
     ''begin{itemize}[leftmargin=0.15in, label={}]'' @ [NL] @ ''  '' @ [BS] @ ''item'' @ [NL] @
     ''    '' @ [BS] @ ''begin{tabular*}{'' @ [BS] @ ''textwidth}{'' @ [CHR 0x40] @ ''{'' @ [BS] @
     ''extracolsep{'' @ [BS] @ ''fill}}l r}'' @ [NL] @ ''      '' @ [BS] @ ''textbf{'' @ [BS] @
     ''large QA/Dev} & {'' @ [BS] @ ''small } '' @ [BS, BS, NL] @ ''      '' @ [BS] @
     ''textit{'' @ [BS] @ ''small } & '' @ [BS] @ ''textit{'' @ [BS] @ ''small } '' @
     [BS, BS, NL] @ ''    '' @ [BS] @ ''end{tabular*}'' @ [BS] @ ''vspace{-2pt}'' @ [NL] @
     ''    '' @ [BS] @ ''begin{itemize}[leftmargin=0.2in, topsep=0pt, itemsep=-2pt]'' @ [NL] @
     ''      '' @ [BS] @ ''item '' @ [BS] @ ''small{Cut cost 5'' @ [BS] @ ''%}'' @ [NL] @
     ''    '' @ [BS] @ ''end{itemize}'' @ [NL, BS] @ ''end{itemize}'' @ [NL, NL] \<and>
   sanitize_for_latex (dict_get (title slash_entry) []) =
     ''QA'' @ [BS] @ ''textbackslash{}Dev'' \<and>
   \<not> sublist (sanitize_for_latex (dict_get (title slash_entry) []))
       (build_experience_section (example_resume\<lparr>experience := Some [slash_entry]\<rparr>)) \<and>
   sanitize_for_latex (''Cut cost 5'' @ [BS] @ ''%'') =
     ''Cut cost 5'' @ [BS] @ ''textbackslash{}'' @ [BS] @ ''%'' \<and>
   \<not> sublist (sanitize_for_latex (''Cut cost 5'' @ [BS] @ ''%''))
       (build_experience_section (example_resume\<lparr>experience := Some [slash_entry]\<rparr>)) \<and>
   clean_skill (''R'' @ [BS] @ ''textbackslash{}'' @ [BS] @ ''&D'') = ''R '' @ [BS] @ ''& D'' \<and>
   sanitize_for_latex (''R'' @ [BS] @ ''textbackslash{}'' @ [BS] @ ''&D'') =
     ''R'' @ [BS] @ ''textbackslash{}textbackslash'' @ [BS] @ ''{'' @ [BS] @ ''}'' @ [BS] @
     ''textbackslash{}'' @ [BS] @ ''&D'' \<and>
   fst (build_photo_block photo_world special_resume) =
     Returns ([BS] @ ''includegraphics[width=0.8'' @ [BS] @ ''textwidth]{me_1.png}'') \<and>
   sanitize_for_latex ''me_1.png'' = ''me'' @ [BS] @ ''_1.png''"
  by (simp add: build_experience_section_def truthy_def entry_step_def accomplishment_step_def
      slash_entry_def example_resume_def dict_get_def title_rewrite_def
      accomplishment_rewrite_def clean_skill_def sanitize_concat escape_char_def conv_def
      entry_markup_def accomplishment_markup_def accomplishments_header_def
      accomplishments_footer_def experience_header_def experience_footer_def
      build_photo_block_def contact_get_def special_resume_def photo_world_def
      os_path_basename_def os_path_join_def sublist_Cons_right Let_def)

text \<open>
  C8, amended. The summary, the dates, company and location of an experience entry, the
  four fields of an education entry and every language are embedded exactly as
  \<open>sanitize_for_latex\<close> returns them. The title of an experience entry is embedded as the
  sanitizer's output with every \<open>\textbackslash{}\<close> replaced by a slash, and an
  accomplishment as the sanitizer's output with every \<open>\textbackslash{}\%\<close> replaced by
  \<open>\%\<close>. A skill is embedded as the sanitizer's output for the raw skill in which every
  \<open>\textbackslash{}\&\<close> was first replaced by \<open> & \<close>. The photo builder embeds the base
  name of the photo path with every backslash replaced by a slash, and does not sanitize
  it. So the title, an accomplishment and a skill are embedded as the sanitizer's output
  for the raw value whenever the raw title has no backslash, the raw accomplishment has no
  backslash directly before a percent sign, and the raw skill does not hold the text
  \<open>\textbackslash{}\&\<close>.
\<close>

theorem section_builders_embedded_values:
  "build_summary_section data =
     (if summary data = None \<or> summary data = Some [] then []
      else [BS] @ ''section*{Summary}'' @ [NL] @ sanitize_for_latex (dict_get (summary data) []) @
           [BS] @ ''vspace{10pt}'' @ [NL]) \<and>
   build_experience_section data =
     (if experience data = None \<or> experience data = Some [] then []
      else experience_header @
           concat
             (map (\<lambda>entry.
                entry_markup (title_rewrite (sanitize_for_latex (dict_get (title entry) [])))
                  (sanitize_for_latex (dict_get (dates entry) []))
                  (sanitize_for_latex (dict_get (company entry) []))
                  (sanitize_for_latex (dict_get (location entry) [])) @
                (if accomplishments entry = None \<or> accomplishments entry = Some [] then []
                 else accomplishments_header @
                      concat (map (\<lambda>acc. accomplishment_markup
                                            (accomplishment_rewrite (sanitize_for_latex acc)))
                                (dict_get (accomplishments entry) [])) @
                      accomplishments_footer))
              (dict_get (experience data) [])) @
           experience_footer) \<and>
   build_education_section data =
     (if education data = None \<or> education data = Some [] then []
      else education_header @
           concat
             (map (\<lambda>entry.
                education_markup (sanitize_for_latex (dict_get (institution entry) []))
                  (sanitize_for_latex (dict_get (edu_dates entry) []))
                  (sanitize_for_latex (dict_get (degree entry) []))
                  (sanitize_for_latex (dict_get (edu_location entry) [])))
              (dict_get (education data) [])) @
           [BS] @ ''end{itemize}'' @ [NL, NL]) \<and>
   build_skills_section data =
     (case skills data of
        None \<Rightarrow> []
      | Some sk \<Rightarrow>
          let tech_skills = dict_get (technical sk) [];
              prof_skills = dict_get (professional sk) [];
              col_width = (if tech_skills \<noteq> [] \<and> prof_skills \<noteq> [] then ''0.5'' else ''1.0'')
          in if tech_skills = [] \<and> prof_skills = [] then []
             else [BS] @ ''section*{Skills}'' @ [NL, BS] @ ''noindent'' @ [NL] @
                  (if tech_skills = [] then []
                   else minipage_open col_width ''Technical Skills'' @
                        concat (map (\<lambda>skill. ''            '' @ [BS] @ ''item '' @ clean_skill skill @ [NL])
                                  tech_skills) @
                        minipage_close @ (if prof_skills = [] then [] else ''%'' @ [NL])) @
                  (if prof_skills = [] then []
                   else minipage_open col_width ''Professional Skills'' @
                        concat (map (\<lambda>skill. ''            '' @ [BS] @ ''item '' @ clean_skill skill @ [NL])
                                  prof_skills) @
                        minipage_close @ [NL, NL])) \<and>
   build_languages_section data =
     (if languages data = None \<or> languages data = Some [] then []
      else [BS] @ ''section*{Languages}'' @ [NL, BS] @
           ''begin{itemize}[leftmargin=0.15in, topsep=0pt]'' @ [NL] @
           concat (map (\<lambda>lang. ''    '' @ [BS] @ ''item '' @ sanitize_for_latex lang @ [NL])
                     (dict_get (languages data) [])) @
           [BS] @ ''end{itemize}'' @ [NL]) \<and>
   (contact_get data photo_path = Some path \<and> path \<noteq> [] \<and> files w path = Some photo \<and>
      os_path_join ''output'' (os_path_basename path) \<noteq> path \<longrightarrow>
    fst (build_photo_block w data) =
      Returns ([BS] @ ''includegraphics[width=0.8'' @ [BS] @ ''textwidth]{'' @
               str_replace [BS] ''/'' (os_path_basename path) @ ''}'')) \<and>
   title_rewrite t = str_replace ([BS] @ ''textbackslash{}'') ''/'' t \<and>
   accomplishment_rewrite a =
     str_replace ([BS] @ ''textbackslash{}'' @ [BS] @ ''%'') ([BS] @ ''%'') a \<and>
   clean_skill s =
     sanitize_for_latex (str_replace ([BS] @ ''textbackslash{}'' @ [BS] @ ''&'') '' & '' s) \<and>
   (BS \<notin> set raw_title \<longrightarrow>
      title_rewrite (sanitize_for_latex raw_title) = sanitize_for_latex raw_title) \<and>
   (\<not> sublist [BS, CHR ''%''] raw_acc \<longrightarrow>
      accomplishment_rewrite (sanitize_for_latex raw_acc) = sanitize_for_latex raw_acc) \<and>
   (\<not> sublist ([BS] @ ''textbackslash{}'' @ [BS] @ ''&'') raw_skill \<longrightarrow>
      clean_skill raw_skill = sanitize_for_latex raw_skill)"
  by (intro conjI summary_section_eq experience_section_eq education_section_eq
      skills_section_eq languages_section_eq photo_block_eq clean_skill_absent impI
      title_rewrite_sanitize acc_rewrite_sanitize)
    (simp_all add: title_rewrite_def accomplishment_rewrite_def clean_skill_def)

text \<open>
  A profile with a reserved character in every value: each fragment holds the escaped
  values, and the photo fragment the plain file name.
\<close>

theorem section_builders_embedded_values_witness:
  "BS \<notin> set ''Dev_Ops'' \<and> \<not> sublist [BS, CHR ''%''] ''Cut cost 5%'' \<and>
   \<not> sublist ([BS] @ ''textbackslash{}'' @ [BS] @ ''&'') ''C#'' \<and>
   title_rewrite (sanitize_for_latex ''Dev_Ops'') = ''Dev'' @ [BS] @ ''_Ops'' \<and>
   accomplishment_rewrite (sanitize_for_latex ''Cut cost 5%'') = ''Cut cost 5'' @ [BS] @ ''%'' \<and>
   clean_skill ''C#'' = ''C'' @ [BS] @ ''#'' \<and>
   build_summary_section special_resume =
     [BS] @ ''section*{Summary}'' @ [NL] @ ''R'' @ [BS] @ ''&D for 100'' @ [BS] @ ''% of teams'' @
     [BS] @ ''vspace{10pt}'' @ [NL] \<and>
   build_experience_section special_resume =
     [BS] @ ''section*{Professional Experience}'' @ [NL, BS] @
     ''begin{itemize}[leftmargin=0.15in, label={}]'' @ [NL] @ ''  '' @ [BS] @ ''item'' @ [NL] @
     ''    '' @ [BS] @ ''begin{tabular*}{'' @ [BS] @ ''textwidth}{'' @ [CHR 0x40] @ ''{'' @ [BS] @
     ''extracolsep{'' @ [BS] @ ''fill}}l r}'' @ [NL] @ ''      '' @ [BS] @ ''textbf{'' @ [BS] @
     ''large Dev'' @ [BS] @ ''_Ops} & {'' @ [BS] @ ''small 2019'' @ [BS] @
     ''textasciitilde{}2021} '' @ [BS, BS, NL] @ ''      '' @ [BS] @ ''textit{'' @ [BS] @
     ''small B'' @ [BS] @ ''&B} & '' @ [BS] @ ''textit{'' @ [BS] @ ''small Oslo '' @ [BS] @
     ''#1} '' @ [BS, BS, NL] @ ''    '' @ [BS] @ ''end{tabular*}'' @ [BS] @ ''vspace{-2pt}'' @
     [NL] @ ''    '' @ [BS] @ ''begin{itemize}[leftmargin=0.2in, topsep=0pt, itemsep=-2pt]'' @
     [NL] @ ''      '' @ [BS] @ ''item '' @ [BS] @ ''small{Cut cost 5'' @ [BS] @ ''%}'' @ [NL] @
     ''      '' @ [BS] @ ''item '' @ [BS] @ ''small{Led '' @ [BS] @ ''{team'' @ [BS] @ ''}}'' @
     [NL] @ ''    '' @ [BS] @ ''end{itemize}'' @ [NL, BS] @ ''end{itemize}'' @ [NL, NL] \<and>
   build_education_section special_resume =
     [BS] @ ''section*{Education}'' @ [NL, BS] @ ''begin{itemize}[leftmargin=0.15in, label={}]'' @
     [NL] @ ''  '' @ [BS] @ ''item'' @ [NL] @ ''    '' @ [BS] @ ''begin{tabular*}{'' @ [BS] @
     ''textwidth}{'' @ [CHR 0x40] @ ''{'' @ [BS] @ ''extracolsep{'' @ [BS] @ ''fill}}l r}'' @
     [NL] @ ''      '' @ [BS] @ ''textbf{'' @ [BS] @ ''large MIT '' @ [BS] @ ''& Co} & {'' @
     [BS] @ ''small 2015'' @ [BS] @ ''textasciicircum{}} '' @ [BS, BS, NL] @ ''      '' @ [BS] @
     ''textit{'' @ [BS] @ ''small B.Sc'' @ [BS] @ ''_CS} & '' @ [BS] @ ''textit{'' @ [BS] @
     ''small US'' @ [BS] @ ''$} '' @ [BS, BS, NL] @ ''    '' @ [BS] @ ''end{tabular*}'' @ [BS] @
     ''vspace{-2pt}'' @ [NL, BS] @ ''end{itemize}'' @ [NL, NL] \<and>
   build_skills_section special_resume =
     [BS] @ ''section*{Skills}'' @ [NL, BS] @ ''noindent'' @ [NL, BS] @
     ''begin{minipage}[t]{1.0'' @ [BS] @ ''textwidth}'' @ [NL] @ ''    '' @ [BS] @
     ''begin{itemize}[leftmargin=0.15in, label={}, noitemsep, topsep=0pt]'' @ [NL] @
     ''        '' @ [BS] @ ''item '' @ [BS] @ ''textbf{Technical Skills}'' @ [NL] @ ''        '' @
     [BS] @ ''begin{itemize}[leftmargin=0.2in, topsep=2pt, itemsep=-2pt]'' @ [NL] @
     ''            '' @ [BS] @ ''item C'' @ [BS] @ ''#'' @ [NL] @ ''            '' @ [BS] @
     ''item R'' @ [BS] @ ''&D'' @ [NL] @ ''        '' @ [BS] @ ''end{itemize}'' @ [NL] @
     ''    '' @ [BS] @ ''end{itemize}'' @ [NL, BS] @ ''end{minipage}'' \<and>
   build_languages_section special_resume =
     [BS] @ ''section*{Languages}'' @ [NL, BS] @
     ''begin{itemize}[leftmargin=0.15in, topsep=0pt]'' @ [NL] @ ''    '' @ [BS] @ ''item EN'' @
     [BS] @ ''_US'' @ [NL, BS] @ ''end{itemize}'' @ [NL] \<and>
   fst (build_photo_block photo_world special_resume) =
     Returns ([BS] @ ''includegraphics[width=0.8'' @ [BS] @ ''textwidth]{me_1.png}'')"
  using section_builders_embedded_values
    [where data = special_resume and path = "''photos/me_1.png''" and w = photo_world
       and photo = "''PNG''" and raw_title = "''Dev_Ops''" and raw_acc = "''Cut cost 5%''"
       and raw_skill = "''C#''"]
  by (simp add: special_resume_def photo_world_def dict_get_def contact_get_def
      os_path_basename_def os_path_join_def sanitize_concat escape_char_def conv_def
      entry_markup_def accomplishment_markup_def accomplishments_header_def
      accomplishments_footer_def experience_header_def experience_footer_def
      education_markup_def education_header_def minipage_open_def minipage_close_def Let_def
      sublist_Cons_right)

section \<open>Properties of \<open>apply_ai_edits\<close>\<close>

subsection \<open>The loop, edit by edit\<close>

lemma list_index_takeWhile:
  "x \<in> set xs \<Longrightarrow> list_index xs x = Inr (length (takeWhile (\<lambda>y. y \<noteq> x) xs))"
  by (induction xs) auto

lemma edits_loop_append:
  "edits_loop c p (es @ fs) =
     (case edits_loop c p es of Inl e \<Rightarrow> Inl e | Inr q \<Rightarrow> edits_loop c q fs)"
  by (induction es arbitrary: p) (simp_all split: sum.splits)

lemma apply_ai_edits_snoc:
  "apply_ai_edits c p earlier = Inr q \<Longrightarrow> try_edit q edit = Inr r \<Longrightarrow>
     apply_ai_edits c p (earlier @ [edit]) = Inr r"
  by (simp add: apply_ai_edits_def edits_loop_append)

subsection \<open>C1: summary edits\<close>

text \<open>
  C1. A summary edit that carries its texts is applied exactly when the summary the
  profile has at that moment (after the earlier edits; the empty string when the key is
  missing) equals \<open>original_text\<close>: then the summary becomes \<open>suggested_text\<close>.
  Otherwise the profile stays as it is.
\<close>

theorem apply_ai_edits_summary:
  assumes "section edit = Some ''summary''" "original_text edit = Some orig"
    "suggested_text edit = Some sugg" "apply_ai_edits rich p earlier = Inr q"
  shows "apply_ai_edits rich p (earlier @ [edit]) =
     Inr (if dict_get (summary q) [] = orig then q\<lparr>summary := Some sugg\<rparr> else q)"
proof -
  have "try_edit q edit =
      Inr (if dict_get (summary q) [] = orig then q\<lparr>summary := Some sugg\<rparr> else q)"
    using assms(1-3) by (simp add: try_edit_def edit_summary_def subscript_def)
  with assms(4) show ?thesis by (rule apply_ai_edits_snoc)
qed

text \<open>The specification's two examples: \<open>Old summary\<close> is replaced, \<open>Different text\<close>
  is kept.\<close>

theorem apply_ai_edits_summary_witness:
  "apply_ai_edits example_console example_resume [summary_edit] =
     Inr (example_resume\<lparr>summary := Some ''New summary''\<rparr>) \<and>
   apply_ai_edits example_console (example_resume\<lparr>summary := Some ''Different text''\<rparr>)
       [summary_edit] =
     Inr (example_resume\<lparr>summary := Some ''Different text''\<rparr>)"
proof -
  have e: "section summary_edit = Some ''summary''"
    "original_text summary_edit = Some ''Old summary''"
    "suggested_text summary_edit = Some ''New summary''"
    by (simp_all add: summary_edit_def)
  have n: "apply_ai_edits example_console p [] = Inr p" for p
    by (simp add: apply_ai_edits_def)
  show ?thesis
    using apply_ai_edits_summary [OF e n, of example_resume]
      apply_ai_edits_summary [OF e n, of "example_resume\<lparr>summary := Some ''Different text''\<rparr>"]
    by (simp add: example_resume_def dict_get_def)
qed

subsection \<open>Edits that match nothing, on a console that renders their reports\<close>

lemma case_sum_Inr_iff:
  "(case m of Inl e \<Rightarrow> Inl e | Inr x \<Rightarrow> f x) = Inr y \<longleftrightarrow> (\<exists>x. m = Inr x \<and> f x = Inr y)"
  by (cases m) simp_all

lemma subscript_Inr_iff: "subscript k v = Inr x \<longleftrightarrow> v = Some x"
  by (cases v) (simp_all add: subscript_def)

lemma edit_summary_Inr:
  "edit_summary p e = Inr q \<Longrightarrow>
     q = p \<or>
     (\<exists>orig sugg. original_text e = Some orig \<and> suggested_text e = Some sugg \<and>
        dict_get (summary p) [] = orig)"
  by (auto simp add: edit_summary_def case_sum_Inr_iff subscript_Inr_iff split: if_splits)

lemma edit_experience_Inr:
  "edit_experience p e = Inr q \<Longrightarrow>
     q = p \<or>
     (\<exists>orig sugg i j exps accs. original_text e = Some orig \<and> suggested_text e = Some sugg \<and>
        entry_index e = Some i \<and> experience p = Some exps \<and> list_position exps i = Inr j \<and>
        accomplishments (exps ! j) = Some accs \<and> orig \<in> set accs)"
  by (auto simp add: edit_experience_def replace_accomplishment_def case_sum_Inr_iff
      subscript_Inr_iff split: if_splits)

lemma try_edit_Inr:
  "try_edit p e = Inr q \<Longrightarrow>
     q = p \<or> section e = Some ''summary'' \<and> edit_summary p e = Inr q \<or>
     section e = Some ''experience'' \<and> edit_experience p e = Inr q"
  by (auto simp add: try_edit_def case_sum_Inr_iff subscript_Inr_iff split: if_splits)

lemma try_edit_no_match:
  assumes "\<not> edit_matches p e" "try_edit p e = Inr q"
  shows "q = p"
proof -
  from try_edit_Inr [OF assms(2)] consider "q = p"
    | "section e = Some ''summary''" "edit_summary p e = Inr q"
    | "section e = Some ''experience''" "edit_experience p e = Inr q"
    by blast
  then show ?thesis
  proof cases
    case 1
    then show ?thesis .
  next
    case 2
    with edit_summary_Inr [of p e q] assms(1) show ?thesis
      by (auto simp add: edit_matches_def)
  next
    case 3
    with edit_experience_Inr [of p e q] assms(1) show ?thesis
      by (auto simp add: edit_matches_def dict_get_def)
  qed
qed

text \<open>
  The \<open>try\<close> block raises nothing but \<open>KeyError\<close> and \<open>IndexError\<close>: \<open>index\<close> is
  called only after the membership test.
\<close>

lemma list_position_caught: "list_position xs i = Inl err \<Longrightarrow> caught err"
  by (auto simp add: list_position_def Let_def caught_def split: if_splits)

lemma subscript_caught: "subscript k v = Inl err \<Longrightarrow> caught err"
  by (cases v) (auto simp add: subscript_def caught_def)

lemma edit_summary_caught: "edit_summary p e = Inl err \<Longrightarrow> caught err"
  by (auto simp add: edit_summary_def split: sum.splits if_splits dest: subscript_caught)

lemma replace_accomplishment_caught:
  "orig \<in> set accs \<Longrightarrow> replace_accomplishment p e exps j accs orig = Inl err \<Longrightarrow> caught err"
  by (auto simp add: replace_accomplishment_def list_index_takeWhile split: sum.splits
      dest: subscript_caught)

lemma edit_experience_caught: "edit_experience p e = Inl err \<Longrightarrow> caught err"
  by (auto simp add: edit_experience_def split: sum.splits if_splits
      dest: subscript_caught list_position_caught replace_accomplishment_caught)

lemma try_edit_caught: "try_edit p e = Inl err \<Longrightarrow> caught err"
  by (auto simp add: try_edit_def split: sum.splits if_splits
      dest: subscript_caught edit_summary_caught edit_experience_caught)

text \<open>
  When no edit of the list matches the profile, and the console renders the report of
  every edit that the \<open>try\<close> block rejects, the result is the input profile.
\<close>

lemma apply_ai_edits_no_match_rendered:
  assumes "\<forall>e \<in> set edits. \<not> edit_matches p e"
    and "\<forall>e \<in> set edits. (\<exists>q. try_edit p e = Inr q) \<or> renders rich (DataMismatch e)"
  shows "apply_ai_edits rich p edits = Inr p"
  using assms unfolding apply_ai_edits_def
proof (induction edits)
  case Nil
  show ?case by simp
next
  case (Cons e edits)
  then have ih: "edits_loop rich p edits = Inr p" by simp
  show ?case
  proof (cases "try_edit p e")
    case (Inr q)
    with Cons.prems(1) try_edit_no_match [of p e q] have "q = p" by simp
    with Inr ih show ?thesis by simp
  next
    case (Inl err)
    with Cons.prems(2) have "renders rich (DataMismatch e)" by simp
    with Inl try_edit_caught [OF Inl] ih show ?thesis by simp
  qed
qed

subsection \<open>C4: edits that cannot be applied\<close>

text \<open>
  C4, against the code. The profile has two experience entries. The edit
  \<open>out_of_range_edit\<close> has the index 2: it is reported and passed over, and the edit
  after it is applied, as C4 says. The edit \<open>tagged_edit\<close> has the same index and the
  original text \<open>Built X [/b]\<close>: the \<open>try\<close> block raises \<open>IndexError\<close>, the handler's
  \<open>print\<close> raises \<open>MarkupError\<close>, the function returns nothing and the edit after it
  is never reached.
\<close>

theorem apply_ai_edits_report_raises:
  "apply_ai_edits example_console example_resume [out_of_range_edit, accomplishment_edit] =
     Inr (example_resume
            \<lparr>experience :=
               Some [engineer_entry\<lparr>accomplishments := Some [''Built X using Z'', ''Led Y'']\<rparr>,
                     analyst_entry]\<rparr>) \<and>
   try_edit example_resume tagged_edit = Inl IndexError \<and>
   apply_ai_edits example_console example_resume [tagged_edit, accomplishment_edit] =
     Inl MarkupError"
  by (simp add: apply_ai_edits_def try_edit_def edit_experience_def
      replace_accomplishment_def subscript_def out_of_range_edit_def tagged_edit_def
      accomplishment_edit_def example_resume_def engineer_entry_def dict_get_def
      list_position_def caught_def renders_def example_console_def sublist_Cons_right)

subsection \<open>C10: nothing matches\<close>

text \<open>
  C10, against the code. Neither edit of the list matches the profile: the summary is
  not \<open>Different text\<close>, and the second edit names no entry. With the original text
  \<open>Led Y\<close> in the second edit the function returns the profile as it was. With
  \<open>Led Y [/b]\<close> there, still matching nothing, the report of the edit raises
  \<open>MarkupError\<close> and no profile is returned.
\<close>

theorem apply_ai_edits_no_match_raises:
  "\<not> edit_matches example_resume unmatched_summary_edit \<and>
   \<not> edit_matches example_resume untargeted_edit \<and>
   apply_ai_edits example_console example_resume
     [unmatched_summary_edit, untargeted_edit\<lparr>original_text := Some ''Led Y''\<rparr>] =
     Inr example_resume \<and>
   try_edit example_resume untargeted_edit = Inl (KeyError ''entry_index'') \<and>
   apply_ai_edits example_console example_resume [unmatched_summary_edit, untargeted_edit] =
     Inl MarkupError"
  by (simp add: apply_ai_edits_def try_edit_def edit_summary_def edit_experience_def
      subscript_def edit_matches_def unmatched_summary_edit_def untargeted_edit_def
      example_resume_def dict_get_def caught_def renders_def example_console_def
      sublist_Cons_right)

subsection \<open>C9: negative indices\<close>

lemma list_position_minus_one: "xs \<noteq> [] \<Longrightarrow> list_position xs (- 1) = Inr (length xs - 1)"
  by (cases xs) (auto simp add: list_position_def Let_def)

text \<open>
  C9. The index \<open>-1\<close> is not out of range for a non-empty experience list: an experience
  edit with \<open>entry_index = -1\<close> whose \<open>original_text\<close> is one of the accomplishments of
  the last entry replaces the first such accomplishment of the last entry.
\<close>

theorem apply_ai_edits_negative_index:
  assumes "experience p = Some exps" "exps \<noteq> []"
    "accomplishments (last exps) = Some accs" "orig \<in> set accs"
    "section edit = Some ''experience''" "entry_index edit = Some (- 1)"
    "original_text edit = Some orig" "suggested_text edit = Some sugg"
  shows "apply_ai_edits rich p [edit] =
     Inr (p\<lparr>experience :=
            Some (butlast exps @
                  [(last exps)\<lparr>accomplishments :=
                     Some (accs[length (takeWhile (\<lambda>a. a \<noteq> orig) accs) := sugg])\<rparr>])\<rparr>)"
proof -
  have l: "exps ! (length exps - Suc 0) = last exps"
    using assms(2) by (simp add: last_conv_nth)
  have u: "exps[length exps - Suc 0 := x] = butlast exps @ [x]" for x
    using assms(2) by (induction exps rule: rev_induct) simp_all
  show ?thesis
    using assms
    by (simp add: apply_ai_edits_def try_edit_def edit_summary_def edit_experience_def
        replace_accomplishment_def subscript_def list_position_minus_one
        list_index_takeWhile l u)
qed

theorem apply_ai_edits_negative_index_witness:
  "apply_ai_edits example_console reversed_resume [last_entry_edit] =
     Inr (reversed_resume
            \<lparr>experience :=
               Some [analyst_entry,
                     engineer_entry\<lparr>accomplishments := Some [''Built X'', ''Led Y and Z'']\<rparr>]\<rparr>)"
proof -
  have h: "experience reversed_resume = Some [analyst_entry, engineer_entry]"
    "[analyst_entry, engineer_entry] \<noteq> []"
    "accomplishments (last [analyst_entry, engineer_entry]) = Some [''Built X'', ''Led Y'']"
    "''Led Y'' \<in> set [''Built X'', ''Led Y'']"
    "section last_entry_edit = Some ''experience''"
    "entry_index last_entry_edit = Some (- 1)"
    "original_text last_entry_edit = Some ''Led Y''"
    "suggested_text last_entry_edit = Some ''Led Y and Z''"
    by (simp_all add: reversed_resume_def engineer_entry_def last_entry_edit_def)
  show ?thesis
    using apply_ai_edits_negative_index [OF h] by simp
qed

section \<open>Properties of \<open>compile_latex_to_pdf\<close>\<close>

text \<open>
  C3. The tool exits with code 1 on its first run, having written
  \<open>output/resume.aux\<close> and \<open>output/resume.log\<close>. The function returns \<open>None\<close>, and prints
  the message that names \<open>output/resume.log\<close> and the captured error output. The source
  file \<open>output/resume.tex\<close> stays and the \<open>.aux\<close> file is removed, as C3 says. But
  the \<open>.log\<close> file, which the message tells the user to check and which C3 says is
  left in place, is removed as well.
\<close>

theorem compile_latex_to_pdf_removes_log:
  "(case compile_latex_to_pdf failing_environment empty_world ''source'' ''resume'' of
      (result, w) \<Rightarrow>
        result = Inr None \<and>
        console w = [CompilationError ''output/resume.log'',
                     CompilerOutput ''! Undefined control sequence.''] \<and>
        files w ''output/resume.tex'' = Some ''source'' \<and>
        files w ''output/resume.aux'' = None \<and>
        files w ''output/resume.log'' = None)"
  by (simp add: compile_latex_to_pdf_def compile_try_def compile_failed_def run_pdflatex_def
      cleanup_def remove_if_exists_def os_path_exists_def os_path_join_def rich_print_def
      print_and_return_def renders_def example_console_def failing_environment_def
      failing_pdflatex_def empty_world_def)

section \<open>Properties of \<open>generate_resume_latex\<close>\<close>

subsection \<open>Formatting a template in two parts\<close>

lemma emit_Returns_iff: "emit s r = Returns t \<longleftrightarrow> (\<exists>u. r = Returns u \<and> t = s @ u)"
  by (cases r) (auto simp add: emit_def)

lemma emit_emit: "emit s (emit t r) = emit (s @ t) r"
  by (cases r) (simp_all add: emit_def)

lemma dropWhile_stop_set:
  "dropWhile P xs = s # after \<Longrightarrow> s \<in> set xs \<and> \<not> P s"
  by (metis dropWhile_eq_Nil_conv hd_dropWhile list.distinct(1) list.sel(1) list.set_intros(1)
      set_dropWhileD)

lemma str_format_append:
  "str_format kw before = Returns out \<Longrightarrow>
     str_format kw (before @ rest) = emit out (str_format kw rest)"
proof (induction kw before arbitrary: out rule: str_format.induct)
  case (1 kwargs)
  then show ?case by (cases "str_format kwargs rest") (simp_all add: emit_def)
next
  case (2 kwargs c cs)
  show ?case
  proof (cases "c = CHR ''{''")
    case open_brace: True
    show ?thesis
    proof (cases cs)
      case Nil
      with open_brace "2.prems" show ?thesis by simp
    next
      case (Cons d ds)
      show ?thesis
      proof (cases "d = CHR ''{''")
        case True
        with open_brace Cons "2.prems" obtain u where u: "str_format kwargs ds = Returns u"
          and out: "out = ''{'' @ u"
          by (auto simp add: emit_Returns_iff)
        from "2.IH"(1) [OF open_brace Cons True u]
        show ?thesis using open_brace Cons True out by (simp add: emit_emit)
      next
        case False
        let ?P = "\<lambda>x. \<not> field_stop x"
        let ?n = "takeWhile ?P cs"
        from open_brace Cons False "2.prems"
        obtain after where dw: "dropWhile ?P cs = CHR ''}'' # after"
          by (auto simp add: Let_def split: list.splits if_splits)
        from open_brace Cons False "2.prems" dw
        obtain v u where lk: "lookup_field kwargs ?n = Returns v"
          and u: "str_format kwargs (drop (Suc (length ?n)) cs) = Returns u"
          and out: "out = v @ u"
          by (auto simp add: Let_def emit_Returns_iff split: outcome.splits)
        from dropWhile_stop_set [OF dw] have mem: "CHR ''}'' \<in> set cs" "\<not> ?P (CHR ''}'')"
          by simp_all
        have tw: "takeWhile ?P (cs @ rest) = ?n"
          using mem by (simp add: takeWhile_append1)
        have dwa: "dropWhile ?P (cs @ rest) = CHR ''}'' # after @ rest"
          using mem dw by (simp add: dropWhile_append1)
        have "length (takeWhile ?P cs @ dropWhile ?P cs) = length cs"
          by (simp only: takeWhile_dropWhile_id)
        then have len: "Suc (length ?n) \<le> length cs"
          using dw by simp
        then have dr: "drop (Suc (length ?n)) (cs @ rest) = drop (Suc (length ?n)) cs @ rest"
          by simp
        from "2.IH"(2) [OF open_brace Cons False refl dw _ _ lk u]
        have ih: "str_format kwargs (drop (Suc (length ?n)) cs @ rest) =
            emit u (str_format kwargs rest)"
          by simp
        show ?thesis
          using open_brace Cons False tw dwa dr lk ih out
          by (simp add: Let_def emit_emit)
      qed
    qed
  next
    case not_open: False
    show ?thesis
    proof (cases "c = CHR ''}''")
      case True
      with not_open "2.prems" obtain ds u where cs: "cs = CHR ''}'' # ds"
        and u: "str_format kwargs ds = Returns u" and out: "out = ''}'' @ u"
        by (auto simp add: emit_Returns_iff split: list.splits if_splits)
      from "2.IH"(3) [OF not_open True cs refl u]
      show ?thesis using not_open True cs out by (simp add: emit_emit)
    next
      case False
      with not_open "2.prems" obtain u where u: "str_format kwargs cs = Returns u"
        and out: "out = [c] @ u"
        by (auto simp add: emit_Returns_iff)
      from "2.IH"(4) [OF not_open False u]
      show ?thesis using not_open False out by (simp add: emit_emit)
    qed
  qed
qed

lemma plain_name_takeWhile:
  assumes "plain_name n"
  shows "takeWhile (\<lambda>x. \<not> field_stop x) (n @ CHR ''}'' # after) = n"
    and "dropWhile (\<lambda>x. \<not> field_stop x) (n @ CHR ''}'' # after) = CHR ''}'' # after"
  using assms
  by (simp_all add: plain_name_def list_all_iff takeWhile_append2 dropWhile_append2
      field_stop_def)

lemma lookup_field_unknown:
  "plain_name n \<Longrightarrow> kw n = None \<Longrightarrow> lookup_field kw n = Raises (KeyError n)"
  by (auto simp add: lookup_field_def plain_name_def list_all_iff)

lemma str_format_unknown_field:
  assumes "plain_name n" "kw n = None"
  shows "str_format kw (''{'' @ n @ ''}'' @ after) = Raises (KeyError n)"
proof -
  from assms(1) obtain d ds where n: "n = d # ds" and d: "d \<noteq> CHR ''{''"
    by (cases n) (auto simp add: plain_name_def field_stop_def)
  have "str_format kw (CHR ''{'' # d # ds @ CHR ''}'' # after) = Raises (KeyError n)"
    using plain_name_takeWhile [OF assms(1), of after] lookup_field_unknown [of n kw] assms d
    by (simp add: n Let_def)
  then show ?thesis by (simp add: n)
qed

lemma map_of_placeholders_None:
  "n \<notin> set placeholder_names \<Longrightarrow> map_of (placeholders data photo) n = None"
  by (simp add: placeholders_def placeholder_names_def Let_def)

subsection \<open>C6: a placeholder that is not in the mapping\<close>

text \<open>
  C6, as stated, fails: the template below has the known placeholders \<open>FULL_NAME\<close> and
  \<open>EMAIL\<close> and the unknown \<open>NICKNAME\<close>. The substitution does not succeed with the
  token left in place: \<open>str.format\<close> raises \<open>KeyError\<close> and no text is returned.
\<close>

theorem generate_resume_latex_unknown_placeholder_counterexample:
  "generate_resume_latex example_console nickname_world named_resume ''Modern'' =
     (Raises (KeyError ''NICKNAME''), nickname_world)"
  by (simp add: generate_resume_latex_def template_path_of_def os_path_join_def py_lower_def
      nickname_world_def named_resume_def build_photo_block_def contact_get_def
      placeholders_def Let_def lookup_field_def field_stop_def is_digit_def emit_def
      dict_get_def sanitize_concat escape_char_def conv_def)

text \<open>
  C6, amended. When the template has a placeholder token whose name is a plain identifier
  outside the fixed mapping, and the text before the token formats without error,
  \<open>generate_resume_latex\<close> does not handle the token: the substitution raises
  \<open>KeyError\<close> for that name and no document source is returned.
\<close>

theorem generate_resume_latex_unknown_placeholder:
  assumes "files w (template_path_of template_name) =
      Some (before @ ''{'' @ name @ ''}'' @ after)"
    and "build_photo_block w data = (Returns photo_block, w')"
    and "str_format (map_of (placeholders data photo_block)) before = Returns out"
    and "plain_name name" and "name \<notin> set placeholder_names"
  shows "generate_resume_latex rich w data template_name = (Raises (KeyError name), w')"
proof -
  have "str_format (map_of (placeholders data photo_block))
          (before @ ''{'' @ name @ ''}'' @ after) = Raises (KeyError name)"
    using str_format_append [OF assms(3)]
      str_format_unknown_field [of name "map_of (placeholders data photo_block)" after]
      assms(4) map_of_placeholders_None [OF assms(5), of data photo_block]
    by (simp add: emit_def)
  then show ?thesis
    using assms(1,2) by (simp add: generate_resume_latex_def Let_def)
qed

theorem generate_resume_latex_unknown_placeholder_witness:
  "generate_resume_latex example_console nickname_world named_resume ''Modern'' =
     (Raises (KeyError ''NICKNAME''), nickname_world) \<and>
   str_format (map_of (placeholders named_resume [])) ''Name: {FULL_NAME} ('' =
     Returns ''Name: Ada (''"
proof -
  have f: "files nickname_world (template_path_of ''Modern'') =
      Some (''Name: {FULL_NAME} ('' @ ''{'' @ ''NICKNAME'' @ ''}'' @ '') {EMAIL}'')"
    by (simp add: nickname_world_def template_path_of_def os_path_join_def py_lower_def)
  have b: "build_photo_block nickname_world named_resume = (Returns [], nickname_world)"
    by (simp add: build_photo_block_def contact_get_def named_resume_def)
  have p: "str_format (map_of (placeholders named_resume [])) ''Name: {FULL_NAME} ('' =
     Returns ''Name: Ada (''"
    by (simp add: placeholders_def Let_def lookup_field_def field_stop_def is_digit_def
        emit_def contact_get_def named_resume_def dict_get_def sanitize_concat
        escape_char_def conv_def)
  have n: "plain_name ''NICKNAME''"
    by (simp add: plain_name_def is_digit_def field_stop_def)
  have u: "''NICKNAME'' \<notin> set placeholder_names"
    by (simp add: placeholder_names_def)
  from generate_resume_latex_unknown_placeholder [OF f b p n u] p show ?thesis
    by simp
qed

section \<open>Properties of \<open>apply_ai_edits\<close> on the store\<close>

subsection \<open>Reading the store\<close>

lemma get_resume_iff: "get_resume h a = Some r \<longleftrightarrow> heap_get h a = Some (ResumeDict r)"
  by (simp add: get_resume_def split: option.splits py_object.splits)

lemma get_entries_iff: "get_entries h a = Some as \<longleftrightarrow> heap_get h a = Some (EntryList as)"
  by (simp add: get_entries_def split: option.splits py_object.splits)

lemma get_entry_iff: "get_entry h a = Some e \<longleftrightarrow> heap_get h a = Some (EntryDict e)"
  by (simp add: get_entry_def split: option.splits py_object.splits)

lemma get_strings_iff: "get_strings h a = Some xs \<longleftrightarrow> heap_get h a = Some (StringList xs)"
  by (simp add: get_strings_def split: option.splits py_object.splits)

lemmas get_iffs = get_resume_iff get_entries_iff get_entry_iff get_strings_iff

lemma heap_get_Some_length: "heap_get h a = Some obj \<Longrightarrow> a < length h"
  by (simp add: heap_get_def split: if_splits)

lemma heap_get_append_Some: "heap_get h a = Some obj \<Longrightarrow> heap_get (h @ ext) a = Some obj"
  by (simp add: heap_get_def nth_append split: if_splits)

lemma heap_get_new: "heap_get (h @ [obj]) (length h) = Some obj"
  by (simp add: heap_get_def)

lemma heap_get_set:
  "heap_get (heap_set h a obj) x =
     (if x = a \<and> a < length h then Some obj else heap_get h x)"
  by (simp add: heap_get_def heap_set_def)

lemma entry_above_iff:
  "entry_above n h a \<longleftrightarrow>
     n \<le> a \<and>
     (\<exists>entry. get_entry h a = Some entry \<and>
        (\<forall>l. o_accomplishments entry = Some l \<longrightarrow>
           n \<le> l \<and> (\<exists>xs. get_strings h l = Some xs)))"
  by (auto simp add: entry_above_def split: option.splits)

lemma profile_above_iff:
  "profile_above n h a \<longleftrightarrow>
     n \<le> a \<and>
     (\<exists>r. get_resume h a = Some r \<and>
        (\<forall>l. o_experience r = Some l \<longrightarrow>
           n \<le> l \<and>
           (\<exists>as. get_entries h l = Some as \<and> list_all (entry_above n h) as)))"
  by (auto simp add: profile_above_def split: option.splits)

lemma entry_above_append:
  assumes "entry_above n h a"
  shows "entry_above n (h @ ext) a"
proof -
  from assms obtain entry where n: "n \<le> a" and e: "heap_get h a = Some (EntryDict entry)"
    and l: "\<forall>l. o_accomplishments entry = Some l \<longrightarrow>
      n \<le> l \<and> (\<exists>xs. heap_get h l = Some (StringList xs))"
    unfolding entry_above_iff get_iffs by blast
  have "heap_get (h @ ext) a = Some (EntryDict entry)"
    using e by (rule heap_get_append_Some)
  moreover have "\<forall>l. o_accomplishments entry = Some l \<longrightarrow>
      n \<le> l \<and> (\<exists>xs. heap_get (h @ ext) l = Some (StringList xs))"
    using l heap_get_append_Some by blast
  ultimately show ?thesis
    unfolding entry_above_iff get_iffs using n by blast
qed

lemma entry_above_mono: "entry_above n h a \<Longrightarrow> m \<le> n \<Longrightarrow> entry_above m h a"
  unfolding entry_above_iff by fastforce

lemma list_all_entry_above_append:
  "list_all (entry_above n h) as \<Longrightarrow> list_all (entry_above n (h @ ext)) as"
  by (simp add: list_all_iff entry_above_append)

lemma list_all_entry_above_mono:
  "list_all (entry_above n h) as \<Longrightarrow> m \<le> n \<Longrightarrow> list_all (entry_above m h) as"
  by (auto simp add: list_all_iff intro: entry_above_mono)

subsection \<open>New objects leave the content of old ones alone\<close>

lemma get_append:
  "get_entry h a = Some e \<Longrightarrow> get_entry (h @ ext) a = Some e"
  "get_strings h a = Some xs \<Longrightarrow> get_strings (h @ ext) a = Some xs"
  "get_entries h a = Some as \<Longrightarrow> get_entries (h @ ext) a = Some as"
  "get_resume h a = Some r \<Longrightarrow> get_resume (h @ ext) a = Some r"
  unfolding get_iffs by (simp_all add: heap_get_append_Some)

lemma load_entry_append:
  assumes "load_entry h a = Some e"
  shows "load_entry (h @ ext) a = Some e"
proof -
  from assms obtain eo where eo: "get_entry h a = Some eo"
    by (auto simp add: load_entry_def split: option.splits)
  show ?thesis
  proof (cases "o_accomplishments eo")
    case None
    with assms eo get_append(1) [OF eo, of ext] show ?thesis
      by (simp add: load_entry_def)
  next
    case (Some l)
    with assms eo obtain xs where xs: "get_strings h l = Some xs"
      by (auto simp add: load_entry_def split: option.splits)
    with assms eo Some get_append(1) [OF eo, of ext] get_append(2) [OF xs, of ext]
    show ?thesis by (simp add: load_entry_def)
  qed
qed

lemma load_entries_append:
  "load_entries h as = Some es \<Longrightarrow> load_entries (h @ ext) as = Some es"
proof (induction as arbitrary: es)
  case Nil
  then show ?case by simp
next
  case (Cons a as)
  from Cons.prems obtain e es' where e: "load_entry h a = Some e"
    and es': "load_entries h as = Some es'" and es: "es = e # es'"
    by (auto split: option.splits)
  from load_entry_append [OF e, of ext] Cons.IH [OF es'] es show ?case by simp
qed

lemma load_resume_append:
  assumes "load_resume h a = Some p"
  shows "load_resume (h @ ext) a = Some p"
proof -
  from assms obtain r where r: "get_resume h a = Some r"
    by (auto simp add: load_resume_def split: option.splits)
  show ?thesis
  proof (cases "o_experience r")
    case None
    with assms r get_append(4) [OF r, of ext] show ?thesis
      by (simp add: load_resume_def)
  next
    case (Some l)
    with assms r obtain as es where as: "get_entries h l = Some as"
      and es: "load_entries h as = Some es"
      by (auto simp add: load_resume_def split: option.splits)
    with assms r Some get_append(4) [OF r, of ext] get_append(3) [OF as, of ext]
      load_entries_append [OF es, of ext]
    show ?thesis by (simp add: load_resume_def)
  qed
qed

subsection \<open>A well-formed profile has a content\<close>

lemma entry_above_loads: "entry_above n h a \<Longrightarrow> \<exists>e. load_entry h a = Some e"
  unfolding entry_above_iff by (auto simp add: load_entry_def split: option.splits)

lemma entries_above_load:
  "list_all (entry_above n h) as \<Longrightarrow> \<exists>es. load_entries h as = Some es"
proof (induction as)
  case Nil
  show ?case by simp
next
  case (Cons a as)
  then obtain e es where "load_entry h a = Some e" "load_entries h as = Some es"
    using entry_above_loads [of n h a] by auto
  then show ?case by simp
qed

lemma profile_above_loads: "profile_above n h a \<Longrightarrow> \<exists>p. load_resume h a = Some p"
  unfolding profile_above_iff
  using entries_above_load [of n h]
  by (fastforce simp add: load_resume_def split: option.splits)

lemma entry_above_ref_bounds:
  assumes "entry_above n h a" "accomplishments_ref h a = Some l"
  shows "n \<le> l \<and> l < length h"
proof -
  from assms(1) obtain entry where e: "get_entry h a = Some entry"
    and el: "\<forall>l. o_accomplishments entry = Some l \<longrightarrow>
      n \<le> l \<and> (\<exists>xs. get_strings h l = Some xs)"
    unfolding entry_above_iff by blast
  from assms(2) e have "o_accomplishments entry = Some l"
    by (simp add: accomplishments_ref_def)
  with el obtain xs where "n \<le> l" "get_strings h l = Some xs" by blast
  then show ?thesis
    using heap_get_Some_length [of h l "StringList xs"] by (simp add: get_iffs)
qed

lemma separated_cong:
  "\<forall>b \<in> set as. accomplishments_ref h' b = accomplishments_ref h b \<Longrightarrow>
     separated h' as = separated h as"
proof (induction as)
  case Nil
  show ?case by simp
next
  case (Cons a as)
  then have "list_all (\<lambda>b. accomplishments_ref h' b \<noteq> Some l) as =
      list_all (\<lambda>b. accomplishments_ref h b \<noteq> Some l) as" for l
    by (simp add: list_all_iff)
  with Cons show ?case by (simp split: option.splits)
qed

lemma accomplishments_ref_append:
  "get_entry h a = Some e \<Longrightarrow> accomplishments_ref (h @ ext) a = accomplishments_ref h a"
  using get_append(1) [of h a e ext] by (simp add: accomplishments_ref_def)

subsection \<open>The copy is new, equal in content and unshared\<close>

lemma copy_entry_fresh:
  assumes "entry_above 0 h a"
  shows "\<exists>ext a'. copy_entry h a = Returns (h @ ext, a') \<and>
           entry_above (length h) (h @ ext) a' \<and>
           load_entry (h @ ext) a' = load_entry h a"
proof -
  from assms obtain entry where e: "get_entry h a = Some entry"
    and el: "\<forall>l. o_accomplishments entry = Some l \<longrightarrow> (\<exists>xs. get_strings h l = Some xs)"
    unfolding entry_above_iff by auto
  show ?thesis
  proof (cases "o_accomplishments entry")
    case None
    have "copy_entry h a = Returns (h @ [EntryDict entry], length h)"
      using e None by (simp add: copy_entry_def known_def heap_new_def)
    moreover have "entry_above (length h) (h @ [EntryDict entry]) (length h)"
      using None by (simp add: entry_above_iff get_iffs heap_get_new)
    moreover have "load_entry (h @ [EntryDict entry]) (length h) = load_entry h a"
      using e None heap_get_new [of h "EntryDict entry"]
      by (simp add: load_entry_def get_entry_def)
    ultimately show ?thesis by blast
  next
    case (Some l)
    with el obtain xs where xs: "get_strings h l = Some xs" by auto
    let ?obj = "EntryDict (entry\<lparr>o_accomplishments := Some (length h)\<rparr>)"
    let ?h' = "h @ ([StringList xs] @ [?obj])"
    have g1: "heap_get ?h' (length (h @ [StringList xs])) = Some ?obj"
      using heap_get_new [of "h @ [StringList xs]" ?obj] by simp
    have g2: "heap_get ?h' (length h) = Some (StringList xs)"
      using heap_get_append_Some [OF heap_get_new [of h "StringList xs"], of "[?obj]"]
      by simp
    have "copy_entry h a = Returns (?h', length (h @ [StringList xs]))"
      using e Some xs
      by (simp add: copy_entry_def copy_string_list_def known_def and_then_def heap_new_def)
    moreover have "entry_above (length h) ?h' (length (h @ [StringList xs]))"
      using g1 g2 by (simp add: entry_above_iff get_iffs)
    moreover have "load_entry ?h' (length (h @ [StringList xs])) = load_entry h a"
      using e Some xs g1 g2
      by (simp add: load_entry_def get_entry_def get_strings_def)
    ultimately show ?thesis by blast
  qed
qed

lemma copy_entries_fresh:
  "list_all (entry_above 0 h) as \<Longrightarrow>
     \<exists>ext as'. copy_entries h as = Returns (h @ ext, as') \<and>
       list_all (entry_above (length h) (h @ ext)) as' \<and>
       load_entries (h @ ext) as' = load_entries h as \<and>
       separated (h @ ext) as'"
proof (induction as arbitrary: h)
  case Nil
  show ?case by (rule exI [of _ "[]"], rule exI [of _ "[]"]) simp
next
  case (Cons a as)
  from Cons.prems have a: "entry_above 0 h a" and as: "list_all (entry_above 0 h) as"
    by simp_all
  from copy_entry_fresh [OF a] obtain e1 a'
    where c1: "copy_entry h a = Returns (h @ e1, a')"
      and f1: "entry_above (length h) (h @ e1) a'"
      and l1: "load_entry (h @ e1) a' = load_entry h a"
    by blast
  from Cons.IH [OF list_all_entry_above_append [OF as, of e1]] obtain e2 as'
    where c2: "copy_entries (h @ e1) as = Returns ((h @ e1) @ e2, as')"
      and f2: "list_all (entry_above (length (h @ e1)) ((h @ e1) @ e2)) as'"
      and l2: "load_entries ((h @ e1) @ e2) as' = load_entries (h @ e1) as"
      and s2: "separated ((h @ e1) @ e2) as'"
    by blast
  let ?h' = "h @ (e1 @ e2)"
  have "copy_entries h (a # as) = Returns (?h', a' # as')"
    using c1 c2 by (simp add: and_then_def)
  moreover have "list_all (entry_above (length h) ?h') (a' # as')"
    using entry_above_append [OF f1, of e2] list_all_entry_above_mono [OF f2, of "length h"]
    by simp
  moreover have "load_entries ?h' (a' # as') = load_entries h (a # as)"
  proof -
    from entry_above_loads [OF a] obtain e where e: "load_entry h a = Some e" by blast
    from entries_above_load [OF as] obtain es where es: "load_entries h as = Some es"
      by blast
    have "load_entry ?h' a' = Some e"
      using load_entry_append [of "h @ e1" a' e e2] l1 e by simp
    moreover have "load_entries ?h' as' = Some es"
      using l2 load_entries_append [OF es, of e1] by simp
    ultimately show ?thesis using e es by simp
  qed
  moreover have "separated ?h' (a' # as')"
  proof -
    from f1 obtain eo where eo: "get_entry (h @ e1) a' = Some eo"
      unfolding entry_above_iff by blast
    have r: "accomplishments_ref ?h' a' = accomplishments_ref (h @ e1) a'"
      using accomplishments_ref_append [OF eo, of e2] by simp
    have "list_all (\<lambda>b. accomplishments_ref ?h' b \<noteq> Some l) as'"
      if l: "accomplishments_ref ?h' a' = Some l" for l
    proof -
      from entry_above_ref_bounds [OF f1] l r have "l < length (h @ e1)" by simp
      moreover have "\<forall>b \<in> set as'. \<forall>m. accomplishments_ref ?h' b = Some m \<longrightarrow>
          length (h @ e1) \<le> m"
        using f2 entry_above_ref_bounds [of "length (h @ e1)" ?h'] by (auto simp add: list_all_iff)
      ultimately show ?thesis by (fastforce simp add: list_all_iff)
    qed
    then show ?thesis using s2 by (simp split: option.splits)
  qed
  ultimately show ?case by blast
qed

lemma deepcopy_fresh:
  assumes "profile_above 0 h a"
  shows "\<exists>ext a'. deepcopy h a = Returns (h @ ext, a') \<and>
           profile_above (length h) (h @ ext) a' \<and>
           load_resume (h @ ext) a' = load_resume h a \<and>
           unshared (h @ ext) a'"
proof -
  from assms obtain r where r: "get_resume h a = Some r"
    and rl: "\<forall>l. o_experience r = Some l \<longrightarrow>
      (\<exists>as. get_entries h l = Some as \<and> list_all (entry_above 0 h) as)"
    unfolding profile_above_iff by auto
  show ?thesis
  proof (cases "o_experience r")
    case None
    have g: "get_resume (h @ [ResumeDict r]) (length h) = Some r"
      by (simp add: get_iffs heap_get_new)
    have "deepcopy h a = Returns (h @ [ResumeDict r], length h)"
      using r None by (simp add: deepcopy_def known_def heap_new_def)
    moreover have "profile_above (length h) (h @ [ResumeDict r]) (length h)"
      using None g by (simp add: profile_above_iff)
    moreover have "load_resume (h @ [ResumeDict r]) (length h) = load_resume h a"
      using r None g by (simp add: load_resume_def)
    moreover have "unshared (h @ [ResumeDict r]) (length h)"
      using None g by (simp add: unshared_def)
    ultimately show ?thesis by blast
  next
    case (Some l)
    with rl obtain as where l: "get_entries h l = Some as"
      and as: "list_all (entry_above 0 h) as"
      by auto
    from copy_entries_fresh [OF as] obtain e1 as'
      where c: "copy_entries h as = Returns (h @ e1, as')"
        and f: "list_all (entry_above (length h) (h @ e1)) as'"
        and ld: "load_entries (h @ e1) as' = load_entries h as"
        and sp: "separated (h @ e1) as'"
      by blast
    let ?lst = "EntryList as'"
    let ?l' = "length (h @ e1)"
    let ?r' = "r\<lparr>o_experience := Some ?l'\<rparr>"
    let ?obj = "ResumeDict ?r'"
    let ?h' = "h @ (e1 @ [?lst] @ [?obj])"
    let ?a' = "length (h @ e1 @ [?lst])"
    have g1: "get_resume ?h' ?a' = Some ?r'"
      using heap_get_new [of "h @ e1 @ [?lst]" ?obj] by (simp add: get_iffs)
    have g2: "get_entries ?h' ?l' = Some as'"
      using heap_get_append_Some [OF heap_get_new [of "h @ e1" ?lst], of "[?obj]"]
      by (simp add: get_iffs)
    have g3: "list_all (entry_above (length h) ?h') as'"
      using list_all_entry_above_append [OF f, of "[?lst] @ [?obj]"] by simp
    from entries_above_load [OF as] obtain es where es: "load_entries h as = Some es"
      by blast
    have g4: "load_entries ?h' as' = Some es"
      using load_entries_append [of "h @ e1" as' es "[?lst] @ [?obj]"] ld es by simp
    have g5: "separated ?h' as'"
    proof -
      have "accomplishments_ref ?h' b = accomplishments_ref (h @ e1) b" if "b \<in> set as'" for b
      proof -
        from f that obtain eo where "get_entry (h @ e1) b = Some eo"
          unfolding entry_above_iff by (auto simp add: list_all_iff)
        from accomplishments_ref_append [OF this, of "[?lst] @ [?obj]"] show ?thesis by simp
      qed
      then have "separated ?h' as' = separated (h @ e1) as'"
        by (intro separated_cong) simp
      with sp show ?thesis by simp
    qed
    have "deepcopy h a = Returns (?h', ?a')"
      using r Some l c
      by (simp add: deepcopy_def copy_entry_list_def known_def and_then_def heap_new_def)
    moreover have "profile_above (length h) ?h' ?a'"
      unfolding profile_above_iff using g1 g2 g3 by simp
    moreover have "load_resume ?h' ?a' = load_resume h a"
      using r Some l es g1 g2 g4 by (simp add: load_resume_def)
    moreover have "unshared ?h' ?a'"
      using g1 g2 g5 by (simp add: unshared_def)
    ultimately show ?thesis by blast
  qed
qed

subsection \<open>What a write changes\<close>

lemma set_summary_gets:
  assumes "get_resume h a = Some r"
  shows "get_resume (heap_set h a (ResumeDict r')) x = (if x = a then Some r' else get_resume h x)"
    and "get_entries (heap_set h a (ResumeDict r')) x = get_entries h x"
    and "get_entry (heap_set h a (ResumeDict r')) x = get_entry h x"
    and "get_strings (heap_set h a (ResumeDict r')) x = get_strings h x"
  using assms heap_get_Some_length [of h a "ResumeDict r"]
  by (auto simp add: get_resume_def get_entries_def get_entry_def get_strings_def heap_get_set
      split: option.splits py_object.splits)

lemma set_strings_gets:
  assumes "get_strings h a = Some xs"
  shows "get_resume (heap_set h a (StringList ys)) x = get_resume h x"
    and "get_entries (heap_set h a (StringList ys)) x = get_entries h x"
    and "get_entry (heap_set h a (StringList ys)) x = get_entry h x"
    and "get_strings (heap_set h a (StringList ys)) x = (if x = a then Some ys else get_strings h x)"
  using assms heap_get_Some_length [of h a "StringList xs"]
  by (auto simp add: get_resume_def get_entries_def get_entry_def get_strings_def heap_get_set
      split: option.splits py_object.splits)

lemma same_shape_set_summary:
  assumes "get_resume h a = Some r"
  shows "same_shape h (heap_set h a (ResumeDict (r\<lparr>o_summary := s\<rparr>)))"
  using assms by (simp add: same_shape_def set_summary_gets [OF assms])

lemma same_shape_set_strings:
  assumes "get_strings h a = Some xs"
  shows "same_shape h (heap_set h a (StringList ys))"
  using assms by (simp add: same_shape_def set_strings_gets [OF assms])

lemma same_shape_entry_above:
  "same_shape h h' \<Longrightarrow> entry_above n h' a = entry_above n h a"
  by (auto simp add: entry_above_def same_shape_def split: option.splits)

lemma same_shape_profile_above:
  assumes "same_shape h h'" "profile_above n h r"
  shows "profile_above n h' r"
proof -
  from assms(2) obtain r0 where n: "n \<le> r" and r0: "get_resume h r = Some r0"
    and l: "\<forall>l. o_experience r0 = Some l \<longrightarrow>
      n \<le> l \<and> (\<exists>as. get_entries h l = Some as \<and> list_all (entry_above n h) as)"
    unfolding profile_above_iff by blast
  from assms(1) have "map_option o_experience (get_resume h' r) =
      map_option o_experience (get_resume h r)"
    by (simp add: same_shape_def)
  with r0 obtain r1 where r1: "get_resume h' r = Some r1"
    and e: "o_experience r1 = o_experience r0"
    by auto
  have ea: "entry_above n h' = entry_above n h"
    using same_shape_entry_above [OF assms(1)] by (rule ext)
  have "\<forall>l. o_experience r1 = Some l \<longrightarrow>
      n \<le> l \<and> (\<exists>as. get_entries h' l = Some as \<and> list_all (entry_above n h') as)"
    using l e assms(1) ea by (simp add: same_shape_def)
  with n r1 show ?thesis unfolding profile_above_iff by blast
qed

lemma same_shape_unshared:
  assumes "same_shape h h'"
  shows "unshared h' a = unshared h a"
proof -
  have r: "accomplishments_ref h' b = accomplishments_ref h b" for b
    using assms by (simp add: accomplishments_ref_def same_shape_def)
  have s: "separated h' as = separated h as" for as
    by (rule separated_cong) (simp add: r)
  from assms have e: "get_entries h' x = get_entries h x" for x
    by (simp add: same_shape_def)
  from assms have "map_option o_experience (get_resume h' a) =
      map_option o_experience (get_resume h a)"
    by (simp add: same_shape_def)
  then show ?thesis
    by (cases "get_resume h a"; cases "get_resume h' a")
      (auto simp add: unshared_def e s split: option.splits)
qed

lemma take_heap_set: "n \<le> a \<Longrightarrow> take n (heap_set h a obj) = take n h"
  by (simp add: heap_set_def)

subsection \<open>The content of the entries after a write\<close>

lemma load_entries_length: "load_entries h as = Some es \<Longrightarrow> length es = length as"
  by (induction as arbitrary: es) (auto split: option.splits)

lemma load_entries_nth:
  "load_entries h as = Some es \<Longrightarrow> j < length as \<Longrightarrow> load_entry h (as ! j) = Some (es ! j)"
proof (induction as arbitrary: es j)
  case Nil
  then show ?case by simp
next
  case (Cons a as)
  then show ?case by (cases j) (auto split: option.splits)
qed

lemma load_entries_same:
  assumes "\<And>x. get_entry h' x = get_entry h x" "\<And>x. get_strings h' x = get_strings h x"
  shows "load_entries h' as = load_entries h as"
  by (induction as) (simp_all add: load_entry_def assms cong: option.case_cong)

lemma load_entry_unreferenced:
  assumes "get_strings h al = Some xs" "accomplishments_ref h a \<noteq> Some al"
  shows "load_entry (heap_set h al (StringList ys)) a = load_entry h a"
  using assms(2)
  by (auto simp add: load_entry_def accomplishments_ref_def set_strings_gets [OF assms(1)]
      split: option.splits)

lemma load_entries_unreferenced:
  assumes "get_strings h al = Some xs"
  shows "list_all (\<lambda>b. accomplishments_ref h b \<noteq> Some al) as \<Longrightarrow>
     load_entries (heap_set h al (StringList ys)) as = load_entries h as"
  by (induction as) (simp_all add: load_entry_unreferenced [OF assms] cong: option.case_cong)

lemma load_entry_referenced:
  assumes "get_strings h al = Some xs" "accomplishments_ref h a = Some al"
    "load_entry h a = Some e"
  shows "load_entry (heap_set h al (StringList ys)) a = Some (e\<lparr>accomplishments := Some ys\<rparr>)"
  using assms(2,3)
  by (auto simp add: load_entry_def accomplishments_ref_def set_strings_gets [OF assms(1)]
      split: option.splits)

lemma load_entries_set_strings:
  assumes "get_strings h al = Some xs"
  shows "separated h as \<Longrightarrow> load_entries h as = Some es \<Longrightarrow> j < length as \<Longrightarrow>
     accomplishments_ref h (as ! j) = Some al \<Longrightarrow>
     load_entries (heap_set h al (StringList ys)) as =
       Some (es[j := (es ! j)\<lparr>accomplishments := Some ys\<rparr>])"
proof (induction as arbitrary: es j)
  case Nil
  then show ?case by simp
next
  case (Cons a as)
  let ?h' = "heap_set h al (StringList ys)"
  from Cons.prems(2) obtain e es' where e: "load_entry h a = Some e"
    and es': "load_entries h as = Some es'" and es: "es = e # es'"
    by (auto split: option.splits)
  show ?case
  proof (cases j)
    case 0
    with Cons.prems(4) have r: "accomplishments_ref h a = Some al" by simp
    with Cons.prems(1) have "list_all (\<lambda>b. accomplishments_ref h b \<noteq> Some al) as" by simp
    from load_entries_unreferenced [OF assms this, of ys] es'
    have "load_entries ?h' as = Some es'" by simp
    with load_entry_referenced [OF assms r e, of ys] 0 es show ?thesis by simp
  next
    case (Suc j')
    with Cons.prems(3,4) have j': "j' < length as"
      and r: "accomplishments_ref h (as ! j') = Some al"
      by simp_all
    have n: "accomplishments_ref h a \<noteq> Some al"
    proof
      assume "accomplishments_ref h a = Some al"
      with Cons.prems(1) have "list_all (\<lambda>b. accomplishments_ref h b \<noteq> Some al) as" by simp
      with j' r show False by (simp add: list_all_length)
    qed
    from load_entry_unreferenced [OF assms n, of ys] e
    have "load_entry ?h' a = Some e" by simp
    moreover from Cons.prems(1) have "separated h as" by simp
    from Cons.IH [OF this es' j' r]
    have "load_entries ?h' as = Some (es'[j' := (es' ! j')\<lparr>accomplishments := Some ys\<rparr>])" .
    ultimately show ?thesis using Suc es by simp
  qed
qed

lemma load_entry_accomplishments:
  "load_entry h a = Some e \<Longrightarrow> get_entry h a = Some entry \<Longrightarrow>
     accomplishments e =
       (case o_accomplishments entry of None \<Rightarrow> None | Some l \<Rightarrow> get_strings h l)"
  by (auto simp add: load_entry_def split: option.splits)

lemma load_resume_eq:
  assumes "get_resume h a = Some r"
  shows "load_resume h a =
     (case o_experience r of
        None \<Rightarrow>
          Some \<lparr>contact = o_contact r, summary = o_summary r, experience = None,
                education = o_education r, skills = o_skills r, languages = o_languages r\<rparr>
      | Some l \<Rightarrow>
          (case get_entries h l of
             None \<Rightarrow> None
           | Some as \<Rightarrow>
               map_option
                 (\<lambda>es. \<lparr>contact = o_contact r, summary = o_summary r, experience = Some es,
                        education = o_education r, skills = o_skills r,
                        languages = o_languages r\<rparr>)
                 (load_entries h as)))"
  using assms by (simp add: load_resume_def)

lemma list_position_Inr_less: "list_position xs i = Inr j \<Longrightarrow> j < length xs"
  by (auto simp add: list_position_def Let_def split: if_splits)

lemma list_position_length:
  "length xs = length ys \<Longrightarrow> list_position xs i = list_position ys i"
  by (simp add: list_position_def)

subsection \<open>One edit, on the store and on the value\<close>

lemma store_edit_summary_refines:
  assumes "profile_above n h a" "load_resume h a = Some p"
  shows "(\<exists>err. store_edit_summary h a e = Raises err \<and> edit_summary p e = Inl err) \<or>
         (\<exists>h' q. store_edit_summary h a e = Returns h' \<and> edit_summary p e = Inr q \<and>
            load_resume h' a = Some q \<and> take n h' = take n h \<and> same_shape h h')"
proof -
  from assms(1) obtain r0 where n: "n \<le> a" and r0: "get_resume h a = Some r0"
    unfolding profile_above_iff by blast
  from assms(2) have s: "summary p = o_summary r0"
    by (auto simp add: load_resume_eq [OF r0] split: option.splits)
  note defs = store_edit_summary_def edit_summary_def known_def raise_or_def subscript_def
  show ?thesis
  proof (cases "original_text e")
    case None
    then show ?thesis using r0 by (simp add: defs)
  next
    case orig: (Some orig)
    show ?thesis
    proof (cases "dict_get (o_summary r0) [] = orig")
      case False
      then show ?thesis
        using r0 orig s assms(2) by (simp add: defs same_shape_def)
    next
      case True
      show ?thesis
      proof (cases "suggested_text e")
        case None
        then show ?thesis using r0 orig True s by (simp add: defs)
      next
        case (Some sugg)
        let ?r' = "r0\<lparr>o_summary := Some sugg\<rparr>"
        let ?h' = "heap_set h a (ResumeDict ?r')"
        have st: "store_edit_summary h a e = Returns ?h'"
          using r0 orig True Some by (simp add: defs)
        have va: "edit_summary p e = Inr (p\<lparr>summary := Some sugg\<rparr>)"
          using orig True Some s by (simp add: defs)
        have g: "get_resume ?h' a = Some ?r'"
          by (simp add: set_summary_gets [OF r0])
        have le: "load_entries ?h' as = load_entries h as" for as
          by (rule load_entries_same) (simp_all add: set_summary_gets [OF r0])
        have ld: "load_resume ?h' a = Some (p\<lparr>summary := Some sugg\<rparr>)"
          using assms(2)
          by (auto simp add: load_resume_eq [OF r0] load_resume_eq [OF g] le
              set_summary_gets [OF r0] split: option.splits)
        have "take n ?h' = take n h" using n by (rule take_heap_set)
        with st va ld same_shape_set_summary [OF r0, of "Some sugg"] show ?thesis by blast
      qed
    qed
  qed
qed

lemma store_edit_experience_refines:
  assumes "profile_above n h a" "unshared h a" "load_resume h a = Some p"
  shows "(\<exists>err. store_edit_experience h a e = Raises err \<and> edit_experience p e = Inl err) \<or>
         (\<exists>h' q. store_edit_experience h a e = Returns h' \<and> edit_experience p e = Inr q \<and>
            load_resume h' a = Some q \<and> take n h' = take n h \<and> same_shape h h')"
proof -
  from assms(1) obtain r0 where r0: "get_resume h a = Some r0"
    and rl: "\<forall>l. o_experience r0 = Some l \<longrightarrow>
      (\<exists>as. get_entries h l = Some as \<and> list_all (entry_above n h) as)"
    unfolding profile_above_iff by blast
  note sdefs = store_edit_experience_def store_replace_accomplishment_def known_def
    raise_or_def subscript_def
  note vdefs = edit_experience_def replace_accomplishment_def subscript_def
  show ?thesis
  proof (cases "o_experience r0")
    case None
    with assms(3) have "experience p = None"
      by (auto simp add: load_resume_eq [OF r0])
    with None show ?thesis using r0 by (simp add: sdefs vdefs)
  next
    case l: (Some l)
    with rl obtain entries where en: "get_entries h l = Some entries"
      and all: "list_all (entry_above n h) entries"
      by auto
    from assms(3) l en obtain es where es: "load_entries h entries = Some es"
      and p: "p = \<lparr>contact = o_contact r0, summary = o_summary r0, experience = Some es,
                   education = o_education r0, skills = o_skills r0,
                   languages = o_languages r0\<rparr>"
      by (auto simp add: load_resume_eq [OF r0])
    have ex: "experience p = Some es" by (simp add: p)
    from assms(2) r0 l en have sep: "separated h entries"
      by (simp add: unshared_def)
    have len: "length es = length entries" using es by (rule load_entries_length)
    show ?thesis
    proof (cases "entry_index e")
      case None
      then show ?thesis using r0 l en ex by (simp add: sdefs vdefs)
    next
      case i: (Some i)
      have lp: "list_position es i = list_position entries i"
        using len by (rule list_position_length)
      show ?thesis
      proof (cases "list_position entries i")
        case (Inl err)
        then show ?thesis using r0 l en ex i lp by (simp add: sdefs vdefs)
      next
        case j: (Inr j)
        from list_position_Inr_less [OF j] have jl: "j < length entries" .
        with all have "entry_above n h (entries ! j)" by (simp add: list_all_length)
        then obtain entry where ent: "get_entry h (entries ! j) = Some entry"
          and al: "\<forall>a. o_accomplishments entry = Some a \<longrightarrow>
            n \<le> a \<and> (\<exists>xs. get_strings h a = Some xs)"
          unfolding entry_above_iff by blast
        from load_entries_nth [OF es jl] have lj: "load_entry h (entries ! j) = Some (es ! j)" .
        show ?thesis
        proof (cases "o_accomplishments entry")
          case None
          with load_entry_accomplishments [OF lj ent] have "accomplishments (es ! j) = None"
            by simp
          with None show ?thesis using r0 l en ex i lp j ent by (simp add: sdefs vdefs)
        next
          case a': (Some a')
          with al obtain accs where na: "n \<le> a'" and accs: "get_strings h a' = Some accs"
            by auto
          from load_entry_accomplishments [OF lj ent] a' accs
          have ac: "accomplishments (es ! j) = Some accs"
            by simp
          have rf: "accomplishments_ref h (entries ! j) = Some a'"
            using ent a' by (simp add: accomplishments_ref_def)
          show ?thesis
          proof (cases "original_text e")
            case None
            then show ?thesis
              using r0 l en ex i lp j ent a' accs ac by (simp add: sdefs vdefs)
          next
            case orig: (Some orig)
            show ?thesis
            proof (cases "orig \<in> set accs")
              case False
              then have "store_edit_experience h a e = Returns h"
                using r0 l en i j ent a' accs orig by (simp add: sdefs)
              moreover from False have "edit_experience p e = Inr p"
                using ex i lp j ac orig by (simp add: vdefs)
              ultimately show ?thesis using assms(3) by (simp add: same_shape_def)
            next
              case True
              show ?thesis
              proof (cases "suggested_text e")
                case None
                then show ?thesis
                  using r0 l en ex i lp j ent a' accs ac orig True by (simp add: sdefs vdefs)
              next
                case (Some sugg)
                let ?k = "length (takeWhile (\<lambda>y. y \<noteq> orig) accs)"
                let ?ys = "accs[?k := sugg]"
                let ?h' = "heap_set h a' (StringList ?ys)"
                let ?es' = "es[j := (es ! j)\<lparr>accomplishments := Some ?ys\<rparr>]"
                have st: "store_edit_experience h a e = Returns ?h'"
                  using r0 l en i j ent a' accs orig True Some list_index_takeWhile [OF True]
                  by (simp add: sdefs)
                have va: "edit_experience p e = Inr (p\<lparr>experience := Some ?es'\<rparr>)"
                  using ex i lp j ac orig True Some list_index_takeWhile [OF True]
                  by (simp add: vdefs)
                have le: "load_entries ?h' entries = Some ?es'"
                  using accs sep es jl rf by (rule load_entries_set_strings)
                have g: "get_resume ?h' a = Some r0"
                  using r0 by (simp add: set_strings_gets [OF accs])
                have ld: "load_resume ?h' a = Some (p\<lparr>experience := Some ?es'\<rparr>)"
                  using l en le
                  by (simp add: load_resume_eq [OF g] set_strings_gets [OF accs] p)
                have "take n ?h' = take n h" using na by (rule take_heap_set)
                with st va ld same_shape_set_strings [OF accs, of ?ys] show ?thesis by blast
              qed
            qed
          qed
        qed
      qed
    qed
  qed
qed

lemma store_try_edit_refines:
  assumes "profile_above n h a" "unshared h a" "load_resume h a = Some p"
  shows "(\<exists>err. store_try_edit h a e = Raises err \<and> try_edit p e = Inl err) \<or>
         (\<exists>h' q. store_try_edit h a e = Returns h' \<and> try_edit p e = Inr q \<and>
            load_resume h' a = Some q \<and> take n h' = take n h \<and>
            profile_above n h' a \<and> unshared h' a)"
proof -
  have k: "profile_above n h' a \<and> unshared h' a" if "same_shape h h'" for h'
    using same_shape_profile_above [OF that assms(1)] same_shape_unshared [OF that, of a]
      assms(2)
    by simp
  show ?thesis
  proof (cases "section e")
    case None
    then show ?thesis
      by (simp add: store_try_edit_def try_edit_def raise_or_def subscript_def)
  next
    case (Some sec)
    then have t: "store_try_edit h a e =
        (if sec = ''summary'' then store_edit_summary h a e
         else if sec = ''experience'' then store_edit_experience h a e
         else Returns h)"
      and v: "try_edit p e =
        (if sec = ''summary'' then edit_summary p e
         else if sec = ''experience'' then edit_experience p e
         else Inr p)"
      by (simp_all add: store_try_edit_def try_edit_def raise_or_def subscript_def)
    consider "sec = ''summary''" | "sec \<noteq> ''summary''" "sec = ''experience''"
      | "sec \<noteq> ''summary''" "sec \<noteq> ''experience''"
      by blast
    then show ?thesis
    proof cases
      case 1
      with store_edit_summary_refines [OF assms(1,3), of e] k show ?thesis
        unfolding t v by auto
    next
      case 2
      with store_edit_experience_refines [OF assms, of e] k show ?thesis
        unfolding t v by auto
    next
      case 3
      with assms show ?thesis unfolding t v by simp
    qed
  qed
qed

lemma store_edits_loop_refines:
  "profile_above n h a \<Longrightarrow> unshared h a \<Longrightarrow> load_resume h a = Some p \<Longrightarrow>
     \<exists>res h'. store_edits_loop rich h a edits = (res, h') \<and> take n h' = take n h \<and>
       (case res of
          Returns u \<Rightarrow>
            profile_above n h' a \<and>
            (\<exists>q. edits_loop rich p edits = Inr q \<and> load_resume h' a = Some q)
        | Raises err \<Rightarrow> edits_loop rich p edits = Inl err
        | Unmodelled \<Rightarrow> False)"
proof (induction edits arbitrary: h p)
  case Nil
  then show ?case by simp
next
  case (Cons e edits)
  from store_try_edit_refines [OF Cons.prems, of e]
  consider err where "store_try_edit h a e = Raises err" "try_edit p e = Inl err"
    | h1 q where "store_try_edit h a e = Returns h1" "try_edit p e = Inr q"
        "load_resume h1 a = Some q" "take n h1 = take n h" "profile_above n h1 a"
        "unshared h1 a"
    by blast
  then show ?case
  proof cases
    case 1
    show ?thesis
    proof (cases "caught err \<and> renders rich (DataMismatch e)")
      case True
      with 1 have s: "store_edits_loop rich h a (e # edits) = store_edits_loop rich h a edits"
        and v: "edits_loop rich p (e # edits) = edits_loop rich p edits"
        by simp_all
      show ?thesis unfolding s v by (rule Cons.IH [OF Cons.prems])
    next
      case False
      with 1 show ?thesis by auto
    qed
  next
    case 2
    from 2(1,2)
    have s: "store_edits_loop rich h a (e # edits) = store_edits_loop rich h1 a edits"
      and v: "edits_loop rich p (e # edits) = edits_loop rich q edits"
      by simp_all
    show ?thesis unfolding s v 2(4) [symmetric] by (rule Cons.IH [OF 2(5,6,3)])
  qed
qed

subsection \<open>C2: the input is left as it was\<close>

text \<open>
  C2. Let the input be a well-formed, unshared profile in the store. Whatever the edits
  are, and whether \<open>apply_ai_edits\<close> returns or an exception leaves it, the store it
  leaves behind begins with the store it found: no object that existed before the call was
  written to, so the input profile has the content it had. A returned profile lies,
  with all its parts, in the part of the store that the call added, and its content is the
  profile that \<open>apply_ai_edits\<close> computes on values; an exception is the one the function
  on values raises. The call never leaves the model.
\<close>

theorem apply_ai_edits_leaves_input:
  assumes "profile_above 0 h resume_data" and "unshared h resume_data"
  shows "\<exists>result h' p.
     store_apply_ai_edits rich h resume_data edits = (result, h') \<and>
     take (length h) h' = h \<and>
     load_resume h resume_data = Some p \<and> load_resume h' resume_data = Some p \<and>
     (case result of
        Returns editable_resume \<Rightarrow>
          profile_above (length h) h' editable_resume \<and>
          (\<exists>q. apply_ai_edits rich p edits = Inr q \<and> load_resume h' editable_resume = Some q)
      | Raises err \<Rightarrow> apply_ai_edits rich p edits = Inl err
      | Unmodelled \<Rightarrow> False)"
proof -
  from profile_above_loads [OF assms(1)] obtain p where p: "load_resume h resume_data = Some p"
    by blast
  from deepcopy_fresh [OF assms(1)] obtain ext a'
    where d: "deepcopy h resume_data = Returns (h @ ext, a')"
      and f: "profile_above (length h) (h @ ext) a'"
      and l: "load_resume (h @ ext) a' = load_resume h resume_data"
      and u: "unshared (h @ ext) a'"
    by blast
  from l p have l': "load_resume (h @ ext) a' = Some p" by simp
  from store_edits_loop_refines [OF f u l', of rich edits] obtain res h'
    where s: "store_edits_loop rich (h @ ext) a' edits = (res, h')"
      and t: "take (length h) h' = take (length h) (h @ ext)"
      and c: "(case res of
          Returns u \<Rightarrow>
            profile_above (length h) h' a' \<and>
            (\<exists>q. edits_loop rich p edits = Inr q \<and> load_resume h' a' = Some q)
        | Raises err \<Rightarrow> edits_loop rich p edits = Inl err
        | Unmodelled \<Rightarrow> False)"
    by blast
  from t have t': "take (length h) h' = h" by simp
  then have "h' = h @ drop (length h) h'"
    by (metis append_take_drop_id)
  with load_resume_append [OF p, of "drop (length h) h'"]
  have k: "load_resume h' resume_data = Some p" by simp
  show ?thesis
  proof (cases res)
    case (Returns x)
    with d s c have "store_apply_ai_edits rich h resume_data edits = (Returns a', h')"
      by (simp add: store_apply_ai_edits_def)
    with Returns c t' p k show ?thesis by (auto simp add: apply_ai_edits_def)
  next
    case (Raises err)
    with d s have "store_apply_ai_edits rich h resume_data edits = (Raises err, h')"
      by (simp add: store_apply_ai_edits_def)
    with Raises c t' p k show ?thesis by (auto simp add: apply_ai_edits_def)
  next
    case Unmodelled
    with c show ?thesis by simp
  qed
qed

lemmas store_defs =
  store_apply_ai_edits_def deepcopy_def copy_entry_list_def copy_entry_def
  copy_string_list_def store_try_edit_def store_edit_summary_def store_edit_experience_def
  store_replace_accomplishment_def known_def and_then_def raise_or_def heap_new_def
  heap_set_def heap_get_def get_resume_def get_entries_def get_entry_def get_strings_def
  subscript_def list_position_def dict_get_def caught_def renders_def example_console_def
  sublist_Cons_right

text \<open>
  The profile of the examples in a store of five objects. Three edits, one of them out of
  range: the copy takes the next five addresses and holds the two changes, and the five
  objects of the input are as before. With an edit whose report does not render, the
  exception leaves the function and the input is as before all the same.
\<close>

theorem apply_ai_edits_leaves_input_witness:
  "profile_above 0 example_heap 4 \<and> unshared example_heap 4 \<and>
   load_resume example_heap 4 = Some example_resume \<and>
   store_apply_ai_edits example_console example_heap 4
       [summary_edit, out_of_range_edit, accomplishment_edit] =
     (Returns 9,
      example_heap @
      [StringList [''Built X using Z'', ''Led Y''],
       EntryDict \<lparr>o_title = Some ''Engineer'', o_company = Some ''Acme'', o_location = None,
                  o_dates = None, o_accomplishments = Some 5\<rparr>,
       EntryDict \<lparr>o_title = Some ''Analyst'', o_company = Some ''B&B'',
                  o_location = Some ''Oslo'', o_dates = Some ''2019'',
                  o_accomplishments = None\<rparr>,
       EntryList [6, 7],
       ResumeDict \<lparr>o_contact = None, o_summary = Some ''New summary'', o_experience = Some 8,
                   o_education = None, o_skills = None, o_languages = None\<rparr>]) \<and>
   load_resume
     (snd (store_apply_ai_edits example_console example_heap 4
             [summary_edit, out_of_range_edit, accomplishment_edit])) 4 =
     Some example_resume \<and>
   fst (store_apply_ai_edits example_console example_heap 4 [accomplishment_edit, tagged_edit]) =
     Raises MarkupError \<and>
   load_resume
     (snd (store_apply_ai_edits example_console example_heap 4
             [accomplishment_edit, tagged_edit])) 4 =
     Some example_resume"
proof -
  have h: "profile_above 0 example_heap 4" "unshared example_heap 4"
    by (simp_all add: profile_above_def entry_above_def unshared_def accomplishments_ref_def
        example_heap_def heap_get_def get_resume_def get_entries_def get_entry_def
        get_strings_def)
  have p: "load_resume example_heap 4 = Some example_resume"
    by (simp add: load_resume_def load_entry_def example_heap_def heap_get_def get_resume_def
        get_entries_def get_entry_def get_strings_def example_resume_def engineer_entry_def
        analyst_entry_def)
  have e: "store_apply_ai_edits example_console example_heap 4
       [summary_edit, out_of_range_edit, accomplishment_edit] =
     (Returns 9,
      example_heap @
      [StringList [''Built X using Z'', ''Led Y''],
       EntryDict \<lparr>o_title = Some ''Engineer'', o_company = Some ''Acme'', o_location = None,
                  o_dates = None, o_accomplishments = Some 5\<rparr>,
       EntryDict \<lparr>o_title = Some ''Analyst'', o_company = Some ''B&B'',
                  o_location = Some ''Oslo'', o_dates = Some ''2019'',
                  o_accomplishments = None\<rparr>,
       EntryList [6, 7],
       ResumeDict \<lparr>o_contact = None, o_summary = Some ''New summary'', o_experience = Some 8,
                   o_education = None, o_skills = None, o_languages = None\<rparr>])"
    by (simp add: store_defs example_heap_def summary_edit_def out_of_range_edit_def
        accomplishment_edit_def)
  have r: "fst (store_apply_ai_edits example_console example_heap 4
                  [accomplishment_edit, tagged_edit]) = Raises MarkupError"
    by (simp add: store_defs example_heap_def accomplishment_edit_def tagged_edit_def)
  have k: "load_resume (snd (store_apply_ai_edits example_console example_heap 4 edits)) 4 =
      Some example_resume" for edits
    using apply_ai_edits_leaves_input [OF h, of example_console edits] p by auto
  from h p e r k [of "[summary_edit, out_of_range_edit, accomplishment_edit]"]
    k [of "[accomplishment_edit, tagged_edit]"]
  show ?thesis by simp
qed

end
